theory Spec2Isabelle
  imports Main
begin

section \<open>The regular expressions of the proxy (Go \<open>regexp\<close>)\<close>

text \<open>
  Go strings are byte sequences, so a path is a \<open>string\<close> (a list of 8-bit characters).

  A compiled \<open>*regexp.Regexp\<close> is modelled by what it matches at one position: given the
  text before the position and the text from the position on, it returns the submatches
  of the leftmost-first match that starts exactly there (index 0 is the whole match, an
  unmatched group is the empty string, as \<open>FindAllStringSubmatch\<close> reports it), or
  \<open>None\<close> when the expression does not match there. The three matchers of the proxy are
  translated from their literals below; the \<open>EndpointPattern\<close> of an allow-list entry is
  compiled outside the proxy and stays a parameter of this type.
\<close>

type_synonym submatch = "string list"

type_synonym regexp = "string \<Rightarrow> string \<Rightarrow> submatch option"

definition match_len :: "submatch \<Rightarrow> nat" where
  "match_len g = (case g of [] \<Rightarrow> 0 | w # _ \<Rightarrow> length w)"

text \<open>
  \<open>Regexp.allMatches\<close> of the Go library, which \<open>FindAllStringSubmatch(s, -1)\<close> and
  \<open>FindAllString(s, -1)\<close> run: the matches are searched from left to right, a match
  that is not empty moves the position to its end, an empty match moves it by one
  character, and an empty match right at the end of the previous match is not delivered.
  \<open>adj\<close> says that the position is the end of the previous match; \<open>pre\<close> is the text
  already passed. The position moves byte by byte; Go moves it rune by rune, which is
  the same for the three matchers below: each starts with the ASCII character \<open>/\<close>,
  which is no part of a longer UTF-8 sequence.
\<close>

function find_all :: "regexp \<Rightarrow> bool \<Rightarrow> string \<Rightarrow> string \<Rightarrow> submatch list" where
  "find_all re adj pre s =
     (case re pre s of
        None \<Rightarrow> (case s of [] \<Rightarrow> [] | c # cs \<Rightarrow> find_all re False (pre @ [c]) cs)
      | Some g \<Rightarrow>
          (if 0 < match_len g \<and> match_len g \<le> length s
           then g # find_all re True (pre @ take (match_len g) s) (drop (match_len g) s)
           else (if adj then [] else [g]) @
                (case s of [] \<Rightarrow> [] | c # cs \<Rightarrow> find_all re False (pre @ [c]) cs)))"
  by pat_completeness auto
termination
  by (relation "measure (\<lambda>(re, adj, pre, s). length s)") auto

definition FindAllStringSubmatch :: "regexp \<Rightarrow> string \<Rightarrow> submatch list" where
  "FindAllStringSubmatch re s = find_all re False [] s"

definition FindAllString :: "regexp \<Rightarrow> string \<Rightarrow> string list" where
  "FindAllString re s =
     map (\<lambda>g. case g of [] \<Rightarrow> [] | w # _ \<Rightarrow> w) (find_all re False [] s)"

text \<open>\<open>MatchString\<close>: the expression matches at some position of the text.\<close>

fun match_from :: "regexp \<Rightarrow> string \<Rightarrow> string \<Rightarrow> bool" where
  "match_from re pre [] = (case re pre [] of None \<Rightarrow> False | Some g \<Rightarrow> True)"
| "match_from re pre (c # cs) =
     (case re pre (c # cs) of None \<Rightarrow> match_from re (pre @ [c]) cs | Some g \<Rightarrow> True)"

definition MatchString :: "regexp \<Rightarrow> string \<Rightarrow> bool" where
  "MatchString re s = match_from re [] s"

text \<open>
  The character class \<open>[a-zA-Z-0-9_-]\<close>: the ranges \<open>a-z\<close>, \<open>A-Z\<close>, \<open>0-9\<close> and the
  single characters \<open>-\<close> and \<open>_\<close>.
\<close>

definition name_chars :: string where
  "name_chars = ''abcdefghijklmnopqrstuvwxyzABCDEFGHIJKLMNOPQRSTUVWXYZ-0123456789_''"

definition is_name_char :: "char \<Rightarrow> bool" where
  "is_name_char c = (c \<in> set name_chars)"

definition newline :: char where
  "newline = CHR 0x0A"

text \<open>A literal of the expression: the text has to start with it.\<close>

definition strip_literal :: "string \<Rightarrow> string \<Rightarrow> string option" where
  "strip_literal lit s =
     (if take (length lit) s = lit then Some (drop (length lit) s) else None)"

text \<open>
  The group \<open>([a-zA-Z-0-9_-]+)\<close>: at least one character of the class. The repetition is
  greedy and all three expressions go on with \<open>/\<close> or with an optional group, neither of
  which starts with a character of the class, so that the group is the longest run of
  class characters whenever the expression matches.
\<close>

definition name_group :: "string \<Rightarrow> (string \<times> string) option" where
  "name_group s =
     (if takeWhile is_name_char s = [] then None
      else Some (takeWhile is_name_char s, dropWhile is_name_char s))"

text \<open>
  The group \<open>(/.*)?\<close>: a slash and every character up to the next line feed (\<open>.\<close>
  matches any character but the line feed), or nothing (then the group is reported as the
  empty string).
\<close>

definition rest_group :: "string \<Rightarrow> string" where
  "rest_group s =
     (case s of
        [] \<Rightarrow> []
      | c # cs \<Rightarrow> (if c = CHR ''/'' then c # takeWhile (\<lambda>x. x \<noteq> newline) cs else []))"

text \<open>\<open>/proxy/globaldatasources/([a-zA-Z-0-9_-]+)(/.*)?\<close>\<close>

definition globalProxyMatcher :: regexp where
  "globalProxyMatcher pre s =
     (case strip_literal ''/proxy/globaldatasources/'' s of
        None \<Rightarrow> None
      | Some s1 \<Rightarrow>
          (case name_group s1 of
             None \<Rightarrow> None
           | Some (n, s2) \<Rightarrow>
               Some [''/proxy/globaldatasources/'' @ n @ rest_group s2, n, rest_group s2]))"

text \<open>\<open>/proxy/projects/([a-zA-Z-0-9_-]+)/datasources/([a-zA-Z-0-9_-]+)(/.*)?\<close>\<close>

definition projectProxyMatcher :: regexp where
  "projectProxyMatcher pre s =
     (case strip_literal ''/proxy/projects/'' s of
        None \<Rightarrow> None
      | Some s1 \<Rightarrow>
          (case name_group s1 of
             None \<Rightarrow> None
           | Some (p, s2) \<Rightarrow>
               (case strip_literal ''/datasources/'' s2 of
                  None \<Rightarrow> None
                | Some s3 \<Rightarrow>
                    (case name_group s3 of
                       None \<Rightarrow> None
                     | Some (n, s4) \<Rightarrow>
                         Some [''/proxy/projects/'' @ p @ ''/datasources/'' @ n @ rest_group s4,
                               p, n, rest_group s4]))))"

text \<open>
  \<open>/proxy/projects/([a-zA-Z-0-9_-]+)/dashboards/([a-zA-Z-0-9_-]+)/datasources/([a-zA-Z-0-9_-]+)(/.*)?\<close>
\<close>

definition dashboardProxyMatcher :: regexp where
  "dashboardProxyMatcher pre s =
     (case strip_literal ''/proxy/projects/'' s of
        None \<Rightarrow> None
      | Some s1 \<Rightarrow>
          (case name_group s1 of
             None \<Rightarrow> None
           | Some (p, s2) \<Rightarrow>
               (case strip_literal ''/dashboards/'' s2 of
                  None \<Rightarrow> None
                | Some s3 \<Rightarrow>
                    (case name_group s3 of
                       None \<Rightarrow> None
                     | Some (d, s4) \<Rightarrow>
                         (case strip_literal ''/datasources/'' s4 of
                            None \<Rightarrow> None
                          | Some s5 \<Rightarrow>
                              (case name_group s5 of
                                 None \<Rightarrow> None
                               | Some (n, s6) \<Rightarrow>
                                   Some [''/proxy/projects/'' @ p @ ''/dashboards/'' @ d
                                           @ ''/datasources/'' @ n @ rest_group s6,
                                         p, d, n, rest_group s6]))))))"

section \<open>Errors\<close>

text \<open>
  A Go \<open>error\<close> returned by the proxy is an \<open>*echo.HTTPError\<close> (status code and message)
  or the plain error of the transport that the reverse proxy hands to its error handler.
\<close>

datatype error = HTTPError nat string | TransportError string

definition StatusForbidden :: nat where "StatusForbidden = 403"
definition StatusNotFound :: nat where "StatusNotFound = 404"
definition StatusInternalServerError :: nat where "StatusInternalServerError = 500"
definition StatusBadGateway :: nat where "StatusBadGateway = 502"

definition not_properly_formatted :: error where
  "not_properly_formatted =
     HTTPError StatusBadGateway
       ''unable to forward the request to the datasource, request not properly formatted''"

section \<open>Path classification\<close>

definition extractGlobalDatasourceAndPath :: "string \<Rightarrow> error + (string \<times> string)" where
  "extractGlobalDatasourceAndPath requestPath =
     (let matchingGroups = FindAllStringSubmatch globalProxyMatcher requestPath in
      if length matchingGroups > 1 \<or> length matchingGroups = 0
           \<or> length (matchingGroups ! 0) \<le> 1
      then Inl not_properly_formatted
      else Inr (matchingGroups ! 0 ! 1,
                if length (matchingGroups ! 0) > 2 \<and> length (matchingGroups ! 0 ! 2) > 0
                then matchingGroups ! 0 ! 2 else ''/''))"

definition extractProjectDatasourceAndPath ::
  "string \<Rightarrow> error + (string \<times> string \<times> string)" where
  "extractProjectDatasourceAndPath requestPath =
     (let matchingGroups = FindAllStringSubmatch projectProxyMatcher requestPath in
      if length matchingGroups > 1 \<or> length matchingGroups = 0
           \<or> length (matchingGroups ! 0) \<le> 2
      then Inl not_properly_formatted
      else Inr (matchingGroups ! 0 ! 1, matchingGroups ! 0 ! 2,
                if length (matchingGroups ! 0) > 3 \<and> length (matchingGroups ! 0 ! 3) > 0
                then matchingGroups ! 0 ! 3 else ''/''))"

definition extractProjectDashboardDatasourceAndPath ::
  "string \<Rightarrow> error + (string \<times> string \<times> string \<times> string)" where
  "extractProjectDashboardDatasourceAndPath requestPath =
     (let matchingGroups = FindAllStringSubmatch dashboardProxyMatcher requestPath in
      if length matchingGroups > 1 \<or> length matchingGroups = 0
           \<or> length (matchingGroups ! 0) \<le> 3
      then Inl not_properly_formatted
      else Inr (matchingGroups ! 0 ! 1, matchingGroups ! 0 ! 2, matchingGroups ! 0 ! 3,
                if length (matchingGroups ! 0) > 4 \<and> length (matchingGroups ! 0 ! 4) > 0
                then matchingGroups ! 0 ! 4 else ''/''))"

section \<open>Data model\<close>

text \<open>
  \<open>spec.Plugin.Spec\<close> is an \<open>interface{}\<close> holding the decoded document of the plugin.
\<close>

datatype json =
  JNull | JBool bool | JNumber int | JString string
  | JArray "json list" | JObject "(string \<times> json) list"

record DatasourceSpec =
  Plugin_Spec :: json

text \<open>
  \<open>db.Spec.Datasources\<close> is a \<open>map[string]*DatasourceSpec\<close>: a key may be absent
  (\<open>None\<close>), or present with a pointer that may be nil (\<open>Some None\<close>).
\<close>

record DashboardSpec =
  Datasources :: "string \<rightharpoonup> DatasourceSpec option"

text \<open>
  \<open>secret.BasicAuth\<close> and \<open>secret.Authorization\<close>: the proxy reads \<open>Username\<close> and
  \<open>Type\<close> and calls the methods \<open>GetPassword()\<close> and \<open>GetCredentials()\<close>, which take no
  argument and are defined in another package; each is a field holding what the call
  returns (the error, or the value).
\<close>

record BasicAuth =
  Username :: string
  GetPassword :: "string + string"

record Authorization =
  Type :: string
  GetCredentials :: "string + string"

record TLSConfig =
  CA :: string
  Cert :: string
  Key :: string
  CAFile :: string
  CertFile :: string
  KeyFile :: string
  ServerName :: string
  InsecureSkipVerify :: bool

record SecretSpec =
  scrt_BasicAuth :: "BasicAuth option"
  scrt_Authorization :: "Authorization option"
  scrt_TLSConfig :: TLSConfig

record url =
  url_Scheme :: string
  url_Host :: string
  url_Path :: string

record AllowedEndpoint =
  EndpointPattern :: regexp
  Method :: string

text \<open>
  \<open>datasourceHTTP.Config\<close>. \<open>Headers\<close> is a Go map that \<open>prepareRequest\<close> ranges over:
  the list holds its entries in the order of that iteration.
\<close>

record Config =
  cfg_URL :: url
  cfg_AllowedEndpoints :: "AllowedEndpoint list"
  cfg_Headers :: "(string \<times> string) list"
  cfg_Secret :: string

record request =
  req_Method :: string
  req_URL_Path :: string
  req_Host :: string
  req_Header :: "string \<rightharpoonup> string list"

record response =
  resp_Status :: nat
  resp_Body :: string

text \<open>
  The \<open>echo.Context\<close> of the call: the request, and what \<open>c.RealIP()\<close> and
  \<open>c.Scheme()\<close> answer for it.
\<close>

record Context =
  Request :: request
  RealIP :: string
  Scheme :: string

text \<open>\<open>crypto/tls.Config\<close>; \<open>tls_RootCAs = None\<close> is the trust store of the system.\<close>

record tls_Config =
  tls_RootCAs :: "string option"
  tls_Certificates :: "(string \<times> string) list"
  tls_ServerName :: string
  tls_InsecureSkipVerify :: bool
  tls_MinVersion :: nat
  tls_MaxVersion :: nat

definition VersionTLS12 :: nat where "VersionTLS12 = 0x0303"
definition VersionTLS13 :: nat where "VersionTLS13 = 0x0304"

definition tls_Config_zero :: tls_Config where
  "tls_Config_zero =
     \<lparr>tls_RootCAs = None, tls_Certificates = [], tls_ServerName = [],
      tls_InsecureSkipVerify = False, tls_MinVersion = 0, tls_MaxVersion = 0\<rparr>"

text \<open>\<open>promConfig.TLSConfig\<close> and the table \<open>promConfig.TLSVersions\<close>.\<close>

record prom_TLSConfig =
  prom_CA :: string
  prom_Cert :: string
  prom_Key :: string
  prom_CAFile :: string
  prom_CertFile :: string
  prom_KeyFile :: string
  prom_ServerName :: string
  prom_InsecureSkipVerify :: bool
  prom_MinVersion :: nat
  prom_MaxVersion :: nat

definition TLSVersions :: "string \<Rightarrow> nat" where
  "TLSVersions k =
     (case map_of [(''TLS13'', 0x0304), (''TLS12'', 0x0303),
                   (''TLS11'', 0x0302), (''TLS10'', 0x0301)] k of
        None \<Rightarrow> 0 | Some v \<Rightarrow> v)"

text \<open>\<open>http.Transport\<close> with the fields the proxy sets; durations in seconds.\<close>

record Transport =
  tr_ProxyFromEnvironment :: bool
  tr_DialTimeout :: nat
  tr_DialKeepAlive :: nat
  tr_TLSHandshakeTimeout :: nat
  tr_IdleConnTimeout :: nat
  tr_ForceAttemptHTTP2 :: bool
  tr_TLSClientConfig :: tls_Config

section \<open>Collaborators\<close>

text \<open>
  What a DAO's \<open>Get\<close> returns: the entity (modelled by its \<open>Spec\<close>, the only part the
  proxy reads), an error that \<open>databaseModel.IsKeyNotFound\<close> recognises, or any other
  error with its detail.
\<close>

datatype 'a dao_result = Found 'a | KeyNotFound | DaoFailure string

text \<open>
  \<open>crypto.Crypto\<close>: \<open>Decrypt\<close> rewrites the secret behind the pointer or returns an error.
  The proxy can hand it a nil pointer; what the implementation does then (it panics,
  returns an error, or returns nil) is \<open>DecryptNil\<close>.
\<close>

datatype nil_behaviour = NilPanics | NilError string | NilAccepted

record Crypto =
  Decrypt :: "SecretSpec \<Rightarrow> string + SecretSpec"
  DecryptNil :: nil_behaviour

datatype decrypt_result = DecryptDone "SecretSpec option" | DecryptError string | DecryptPanic

definition crypto_Decrypt :: "Crypto \<Rightarrow> SecretSpec option \<Rightarrow> decrypt_result" where
  "crypto_Decrypt c scrt =
     (case scrt of
        None \<Rightarrow>
          (case DecryptNil c of
             NilPanics \<Rightarrow> DecryptPanic
           | NilError e \<Rightarrow> DecryptError e
           | NilAccepted \<Rightarrow> DecryptDone None)
      | Some s \<Rightarrow>
          (case Decrypt c s of
             Inl e \<Rightarrow> DecryptError e
           | Inr s' \<Rightarrow> DecryptDone (Some s')))"

record Proxy =
  Dashboard :: "string \<Rightarrow> string \<Rightarrow> DashboardSpec dao_result"
  Secret :: "string \<Rightarrow> string \<Rightarrow> SecretSpec dao_result"
  GlobalSecret :: "string \<Rightarrow> SecretSpec dao_result"
  DTS :: "string \<Rightarrow> string \<Rightarrow> DatasourceSpec dao_result"
  GlobalDTS :: "string \<Rightarrow> DatasourceSpec dao_result"
  Crypto :: Crypto

text \<open>
  Functions of other packages and libraries that the proxy calls, taken as parameters:
  \<open>quote\<close> is the verb \<open>%q\<close> of \<open>fmt.Sprintf\<close>; \<open>ValidateAndExtract\<close> is
  \<open>datasourceHTTP.ValidateAndExtract\<close>, which returns an error, a nil config or a
  config; \<open>NewTLSConfig\<close> is \<open>promConfig.NewTLSConfig\<close>; \<open>ServeHTTP\<close> is the reverse proxy
  of \<open>httputil.NewSingleHostReverseProxy\<close> run on the target, the transport and the
  request: it answers with the response it has written, or with the error it gives to
  its \<open>ErrorHandler\<close>.
\<close>

record externals =
  quote :: "string \<Rightarrow> string"
  ValidateAndExtract :: "json \<Rightarrow> string + Config option"
  NewTLSConfig :: "prom_TLSConfig \<Rightarrow> string + tls_Config"
  ServeHTTP :: "url \<Rightarrow> Transport \<Rightarrow> request \<Rightarrow> string + response"

text \<open>The calls to the stores and to \<open>Crypto\<close>, in the order they are made.\<close>

datatype call =
  GlobalDTS_Get string
  | DTS_Get string string
  | Dashboard_Get string string
  | GlobalSecret_Get string
  | Secret_Get string string
  | Crypto_Decrypt

section \<open>Scope resolvers\<close>

definition datasource_not_found :: "externals \<Rightarrow> string \<Rightarrow> error" where
  "datasource_not_found ext name =
     HTTPError StatusNotFound
       (''unable to forward the request to the datasource '' @ quote ext name
          @ '', datasource doesn't exist'')"

definition internal_server_error :: error where
  "internal_server_error = HTTPError StatusInternalServerError ''internal server error''"

definition getGlobalDatasource ::
  "externals \<Rightarrow> Proxy \<Rightarrow> string \<Rightarrow> (error + DatasourceSpec) \<times> call list" where
  "getGlobalDatasource ext e name =
     (case GlobalDTS e name of
        KeyNotFound \<Rightarrow> (Inl (datasource_not_found ext name), [GlobalDTS_Get name])
      | DaoFailure err \<Rightarrow> (Inl internal_server_error, [GlobalDTS_Get name])
      | Found dts \<Rightarrow> (Inr dts, [GlobalDTS_Get name]))"

definition getProjectDatasource ::
  "externals \<Rightarrow> Proxy \<Rightarrow> string \<Rightarrow> string \<Rightarrow> (error + DatasourceSpec) \<times> call list" where
  "getProjectDatasource ext e projectName name =
     (case DTS e projectName name of
        KeyNotFound \<Rightarrow> (Inl (datasource_not_found ext name), [DTS_Get projectName name])
      | DaoFailure err \<Rightarrow> (Inl internal_server_error, [DTS_Get projectName name])
      | Found dts \<Rightarrow> (Inr dts, [DTS_Get projectName name]))"

text \<open>
  \<open>getDashboardDatasource\<close> ends with \<open>return *dtsSpec, nil\<close>: a key that is present with
  a nil pointer makes the dereference panic, which is the result \<open>None\<close>.
\<close>

definition getDashboardDatasource ::
  "externals \<Rightarrow> Proxy \<Rightarrow> string \<Rightarrow> string \<Rightarrow> string
     \<Rightarrow> (error + DatasourceSpec) option \<times> call list" where
  "getDashboardDatasource ext e projectName dashboardName name =
     (case Dashboard e projectName dashboardName of
        KeyNotFound \<Rightarrow>
          (Some (Inl (datasource_not_found ext name)), [Dashboard_Get projectName dashboardName])
      | DaoFailure err \<Rightarrow>
          (Some (Inl internal_server_error), [Dashboard_Get projectName dashboardName])
      | Found db \<Rightarrow>
          (case Datasources db name of
             None \<Rightarrow>
               (Some (Inl (datasource_not_found ext name)),
                [Dashboard_Get projectName dashboardName])
           | Some None \<Rightarrow> (None, [Dashboard_Get projectName dashboardName])
           | Some (Some dtsSpec) \<Rightarrow>
               (Some (Inr dtsSpec), [Dashboard_Get projectName dashboardName])))"

section \<open>Secrets\<close>

definition secret_not_found :: "externals \<Rightarrow> string \<Rightarrow> string \<Rightarrow> error" where
  "secret_not_found ext dtsName name =
     HTTPError StatusNotFound
       (''unable to forward the request to the datasource '' @ quote ext dtsName
          @ '', secret '' @ quote ext name @ '' attached doesn't exist'')"

text \<open>
  Both functions return a pair \<open>(*v1.SecretSpec, error)\<close>: the nil pointer with the error,
  or the pointer to the secret with the nil error.
\<close>

definition getGlobalSecret ::
  "externals \<Rightarrow> Proxy \<Rightarrow> string \<Rightarrow> string
     \<Rightarrow> (SecretSpec option \<times> error option) \<times> call list" where
  "getGlobalSecret ext e dtsName name =
     (case GlobalSecret e name of
        KeyNotFound \<Rightarrow> ((None, Some (secret_not_found ext dtsName name)), [GlobalSecret_Get name])
      | DaoFailure err \<Rightarrow> ((None, Some internal_server_error), [GlobalSecret_Get name])
      | Found scrt \<Rightarrow> ((Some scrt, None), [GlobalSecret_Get name]))"

definition getProjectSecret ::
  "externals \<Rightarrow> Proxy \<Rightarrow> string \<Rightarrow> string \<Rightarrow> string
     \<Rightarrow> (SecretSpec option \<times> error option) \<times> call list" where
  "getProjectSecret ext e projectName dtsName name =
     (case Secret e projectName name of
        KeyNotFound \<Rightarrow>
          ((None, Some (secret_not_found ext dtsName name)), [Secret_Get projectName name])
      | DaoFailure err \<Rightarrow> ((None, Some internal_server_error), [Secret_Get projectName name])
      | Found scrt \<Rightarrow> ((Some scrt, None), [Secret_Get projectName name]))"

section \<open>Building the proxy\<close>

record httpProxy =
  config :: Config
  secret :: "SecretSpec option"
  path :: string

text \<open>
  \<open>newProxy\<close> returns a pair \<open>(proxy, error)\<close>, either of which may be nil, or panics.
  \<open>echo.NewHTTPError\<close> with a code alone takes \<open>http.StatusText\<close> of the code as the
  message. The steps follow the source:
  \<^item> an error of \<open>ValidateAndExtract\<close> is answered by 502;
  \<^item> \<open>len(cfg.Secret)\<close> is read before \<open>cfg != nil\<close> is tested, so a nil config panics;
  \<^item> when the config names a secret it is retrieved, and the source goes on with
    \<open>if err == nil { return nil, err }\<close>: a secret that was retrieved ends the function
    with the nil proxy and the nil error, and a failed retrieval goes on to
    \<open>crypto.Decrypt\<close> with the nil pointer;
  \<^item> \<open>Decrypt\<close> rewrites what the pointer refers to, the pointer \<open>scrt\<close> itself stays.
\<close>

datatype newProxy_result = Returned "httpProxy option" "error option" | NewProxyPanic

definition internal_server_error_status_text :: error where
  "internal_server_error_status_text =
     HTTPError StatusInternalServerError ''Internal Server Error''"

definition newProxy ::
  "externals \<Rightarrow> DatasourceSpec \<Rightarrow> string \<Rightarrow> Crypto
     \<Rightarrow> (string \<Rightarrow> (SecretSpec option \<times> error option) \<times> call list)
     \<Rightarrow> newProxy_result \<times> call list" where
  "newProxy ext spec pth crypto retrieveSecret =
     (case ValidateAndExtract ext (Plugin_Spec spec) of
        Inl err \<Rightarrow>
          (Returned None (Some (HTTPError StatusBadGateway ''unable to find the http config'')), [])
      | Inr None \<Rightarrow> (NewProxyPanic, [])
      | Inr (Some cfg) \<Rightarrow>
          (if length (cfg_Secret cfg) > 0
           then
             (case retrieveSecret (cfg_Secret cfg) of
                ((scrt, err), calls) \<Rightarrow>
                  (if err = None then (Returned None err, calls)
                   else
                     (case crypto_Decrypt crypto scrt of
                        DecryptPanic \<Rightarrow> (NewProxyPanic, calls @ [Crypto_Decrypt])
                      | DecryptError decryptErr \<Rightarrow>
                          (Returned None (Some internal_server_error_status_text),
                           calls @ [Crypto_Decrypt])
                      | DecryptDone scrt' \<Rightarrow>
                          (Returned (Some \<lparr>config = cfg, secret = scrt', path = pth\<rparr>) None,
                           calls @ [Crypto_Decrypt]))))
           else (Returned (Some \<lparr>config = cfg, secret = None, path = pth\<rparr>) None, [])))"

section \<open>Preparing the request\<close>

text \<open>
  \<open>textproto.CanonicalMIMEHeaderKey\<close>, which \<open>Header.Get\<close> and \<open>Header.Set\<close> apply to
  the key: a key holding a byte that is not a token character is left as it is;
  otherwise the first letter and every letter after a hyphen become upper case and the
  other letters lower case.
\<close>

definition lower_letters :: string where
  "lower_letters = ''abcdefghijklmnopqrstuvwxyz''"

definition upper_letters :: string where
  "upper_letters = ''ABCDEFGHIJKLMNOPQRSTUVWXYZ''"

definition to_upper :: "char \<Rightarrow> char" where
  "to_upper c = (case map_of (zip lower_letters upper_letters) c of None \<Rightarrow> c | Some u \<Rightarrow> u)"

definition to_lower :: "char \<Rightarrow> char" where
  "to_lower c = (case map_of (zip upper_letters lower_letters) c of None \<Rightarrow> c | Some l \<Rightarrow> l)"

definition validHeaderFieldByte :: "char \<Rightarrow> bool" where
  "validHeaderFieldByte c =
     (c \<in> set (lower_letters @ upper_letters @ ''0123456789'' @ ''!#$%&*+-.^_|~''
               @ [CHR 0x27, CHR 0x60]))"

fun canonical_from :: "bool \<Rightarrow> string \<Rightarrow> string" where
  "canonical_from upper [] = []"
| "canonical_from upper (c # cs) =
     (if upper then to_upper c # canonical_from (to_upper c = CHR ''-'') cs
      else to_lower c # canonical_from (to_lower c = CHR ''-'') cs)"

definition CanonicalMIMEHeaderKey :: "string \<Rightarrow> string" where
  "CanonicalMIMEHeaderKey s =
     (if list_all validHeaderFieldByte s then canonical_from True s else s)"

definition Header_Get :: "(string \<rightharpoonup> string list) \<Rightarrow> string \<Rightarrow> string" where
  "Header_Get h key =
     (case h (CanonicalMIMEHeaderKey key) of
        None \<Rightarrow> [] | Some [] \<Rightarrow> [] | Some (v # _) \<Rightarrow> v)"

definition Header_Set ::
  "(string \<rightharpoonup> string list) \<Rightarrow> string \<Rightarrow> string \<Rightarrow> (string \<rightharpoonup> string list)" where
  "Header_Set h key v = h(CanonicalMIMEHeaderKey key \<mapsto> [v])"

definition HeaderXRealIP :: string where "HeaderXRealIP = ''X-Real-Ip''"
definition HeaderXForwardedProto :: string where "HeaderXForwardedProto = ''X-Forwarded-Proto''"

text \<open>\<open>base64.StdEncoding.EncodeToString\<close>, on the bytes of the string.\<close>

definition base64_alphabet :: string where
  "base64_alphabet = ''ABCDEFGHIJKLMNOPQRSTUVWXYZabcdefghijklmnopqrstuvwxyz0123456789+/''"

definition base64_digit :: "nat \<Rightarrow> char" where
  "base64_digit n = base64_alphabet ! (n mod 64)"

fun base64_bytes :: "nat list \<Rightarrow> string" where
  "base64_bytes (a # b # c # r) =
     [base64_digit (a div 4), base64_digit ((a mod 4) * 16 + b div 16),
      base64_digit ((b mod 16) * 4 + c div 64), base64_digit (c mod 64)] @ base64_bytes r"
| "base64_bytes [a, b] =
     [base64_digit (a div 4), base64_digit ((a mod 4) * 16 + b div 16),
      base64_digit ((b mod 16) * 4), CHR ''='']"
| "base64_bytes [a] =
     [base64_digit (a div 4), base64_digit ((a mod 4) * 16), CHR ''='', CHR ''='']"
| "base64_bytes [] = []"

definition base64 :: "string \<Rightarrow> string" where
  "base64 s = base64_bytes (map of_char s)"

text \<open>\<open>Request.SetBasicAuth\<close>\<close>

definition SetBasicAuth :: "request \<Rightarrow> string \<Rightarrow> string \<Rightarrow> request" where
  "SetBasicAuth req username password =
     req\<lparr>req_Header :=
           Header_Set (req_Header req) ''Authorization''
             (''Basic '' @ base64 (username @ '':'' @ password))\<rparr>"

text \<open>
  \<open>setupAuthentication\<close> changes the request in place and returns an error or nil; the
  model returns the error, or the request as it is when nil is returned.
\<close>

definition setupAuthentication :: "httpProxy \<Rightarrow> request \<Rightarrow> string + request" where
  "setupAuthentication h req =
     (case secret h of
        None \<Rightarrow> Inr req
      | Some scrt \<Rightarrow>
          (case (case scrt_BasicAuth scrt of
                   None \<Rightarrow> Inr req
                 | Some basicAuth \<Rightarrow>
                     (case GetPassword basicAuth of
                        Inl err \<Rightarrow> Inl err
                      | Inr password \<Rightarrow> Inr (SetBasicAuth req (Username basicAuth) password))) of
             Inl err \<Rightarrow> Inl err
           | Inr req1 \<Rightarrow>
               (case scrt_Authorization scrt of
                  None \<Rightarrow> Inr req1
                | Some auth \<Rightarrow>
                    (case GetCredentials auth of
                       Inl err \<Rightarrow> Inl err
                     | Inr credential \<Rightarrow>
                         Inr (req1\<lparr>req_Header :=
                                Header_Set (req_Header req1) ''Authorization''
                                  (Type auth @ '' '' @ credential)\<rparr>)))))"

definition prepareRequest :: "httpProxy \<Rightarrow> Context \<Rightarrow> string + request" where
  "prepareRequest h c =
     (let req0 = (Request c)\<lparr>req_Host := url_Host (cfg_URL (config h))\<rparr>;
          req1 = (if length (Header_Get (req_Header req0) HeaderXRealIP) = 0
                  then req0\<lparr>req_Header := Header_Set (req_Header req0) HeaderXRealIP (RealIP c)\<rparr>
                  else req0);
          req2 = (if length (Header_Get (req_Header req1) HeaderXForwardedProto) = 0
                  then req1\<lparr>req_Header :=
                         Header_Set (req_Header req1) HeaderXForwardedProto (Scheme c)\<rparr>
                  else req1);
          req3 = req2\<lparr>req_Header :=
                   fold (\<lambda>(k, v) hdr. Header_Set hdr k v) (cfg_Headers (config h))
                     (req_Header req2)\<rparr>
      in setupAuthentication h req3)"

section \<open>Transport\<close>

definition prepareTLSConfig :: "externals \<Rightarrow> httpProxy \<Rightarrow> string + tls_Config" where
  "prepareTLSConfig ext h =
     (case secret h of
        None \<Rightarrow> Inr (tls_Config_zero\<lparr>tls_MinVersion := VersionTLS12\<rparr>)
      | Some scrt \<Rightarrow>
          NewTLSConfig ext
            \<lparr>prom_CA = CA (scrt_TLSConfig scrt),
             prom_Cert = Cert (scrt_TLSConfig scrt),
             prom_Key = Key (scrt_TLSConfig scrt),
             prom_CAFile = CAFile (scrt_TLSConfig scrt),
             prom_CertFile = CertFile (scrt_TLSConfig scrt),
             prom_KeyFile = KeyFile (scrt_TLSConfig scrt),
             prom_ServerName = ServerName (scrt_TLSConfig scrt),
             prom_InsecureSkipVerify = InsecureSkipVerify (scrt_TLSConfig scrt),
             prom_MinVersion = TLSVersions ''TLS12'',
             prom_MaxVersion = TLSVersions ''TLS13''\<rparr>)"

definition prepareTransport :: "externals \<Rightarrow> httpProxy \<Rightarrow> error + Transport" where
  "prepareTransport ext h =
     (case prepareTLSConfig ext h of
        Inl err \<Rightarrow> Inl (HTTPError StatusBadGateway ''unable build the tls config'')
      | Inr tlsConfig \<Rightarrow>
          Inr \<lparr>tr_ProxyFromEnvironment = True,
               tr_DialTimeout = 30,
               tr_DialKeepAlive = 30,
               tr_TLSHandshakeTimeout = 10,
               tr_IdleConnTimeout = 90,
               tr_ForceAttemptHTTP2 = True,
               tr_TLSClientConfig = tlsConfig\<rparr>)"

section \<open>Serving\<close>

text \<open>
  How a call of the middleware ends: the next handler is called with the context; an
  error is returned before anything is sent; the call panics; or the reverse proxy is
  run on the prepared request with the transport, and what it answers (the response it
  wrote, then nil is returned; or the error of the transport, then this error is
  returned) is the third argument.
\<close>

datatype outcome =
  Next Context
  | Failed error
  | Panicked
  | Forwarded request Transport "string + response"

definition isAllowed :: "httpProxy \<Rightarrow> request \<Rightarrow> bool" where
  "isAllowed h req =
     list_ex (\<lambda>allowedEndpoint.
                Method allowedEndpoint = req_Method req
                \<and> length (FindAllString (EndpointPattern allowedEndpoint) (path h)) > 0)
       (cfg_AllowedEndpoints (config h))"

definition not_allowed :: "externals \<Rightarrow> string \<Rightarrow> string \<Rightarrow> error" where
  "not_allowed ext pth method =
     HTTPError StatusForbidden
       (''you are not allowed to use this endpoint '' @ quote ext pth
          @ '' with the HTTP method '' @ method)"

definition serve :: "externals \<Rightarrow> httpProxy \<Rightarrow> Context \<Rightarrow> outcome" where
  "serve ext h c =
     (if length (cfg_AllowedEndpoints (config h)) > 0 \<and> \<not> isAllowed h (Request c)
      then Failed (not_allowed ext (path h) (req_Method (Request c)))
      else
        (case prepareRequest h c of
           Inl err \<Rightarrow> Failed internal_server_error_status_text
         | Inr req \<Rightarrow>
             (case prepareTransport ext h of
                Inl transportErr \<Rightarrow> Failed transportErr
              | Inr transport \<Rightarrow>
                  Forwarded (req\<lparr>req_URL_Path := path h\<rparr>) transport
                    (ServeHTTP ext (cfg_URL (config h)) transport
                       (req\<lparr>req_URL_Path := path h\<rparr>)))))"

section \<open>The middleware\<close>

text \<open>
  After \<open>newProxy\<close> each handler tests the error and then calls \<open>pr.serve(ctx)\<close>: with the
  nil error and the nil proxy, the method call on the nil interface panics.
\<close>

definition serve_result :: "externals \<Rightarrow> newProxy_result \<Rightarrow> Context \<Rightarrow> outcome" where
  "serve_result ext r ctx =
     (case r of
        NewProxyPanic \<Rightarrow> Panicked
      | Returned pr (Some err) \<Rightarrow> Failed err
      | Returned None None \<Rightarrow> Panicked
      | Returned (Some h) None \<Rightarrow> serve ext h ctx)"

definition proxyGlobalDatasource :: "externals \<Rightarrow> Proxy \<Rightarrow> Context \<Rightarrow> outcome \<times> call list" where
  "proxyGlobalDatasource ext e ctx =
     (case extractGlobalDatasourceAndPath (req_URL_Path (Request ctx)) of
        Inl err \<Rightarrow> (Failed err, [])
      | Inr (dtsName, pth) \<Rightarrow>
          (case getGlobalDatasource ext e dtsName of
             (Inl err, calls) \<Rightarrow> (Failed err, calls)
           | (Inr dts, calls) \<Rightarrow>
               (case newProxy ext dts pth (Crypto e) (getGlobalSecret ext e dtsName) of
                  (r, calls') \<Rightarrow> (serve_result ext r ctx, calls @ calls'))))"

definition proxyProjectDatasource :: "externals \<Rightarrow> Proxy \<Rightarrow> Context \<Rightarrow> outcome \<times> call list" where
  "proxyProjectDatasource ext e ctx =
     (case extractProjectDatasourceAndPath (req_URL_Path (Request ctx)) of
        Inl err \<Rightarrow> (Failed err, [])
      | Inr (projectName, dtsName, pth) \<Rightarrow>
          (case getProjectDatasource ext e projectName dtsName of
             (Inl err, calls) \<Rightarrow> (Failed err, calls)
           | (Inr dts, calls) \<Rightarrow>
               (case newProxy ext dts pth (Crypto e)
                       (getProjectSecret ext e projectName dtsName) of
                  (r, calls') \<Rightarrow> (serve_result ext r ctx, calls @ calls'))))"

definition proxyDashboardDatasource ::
  "externals \<Rightarrow> Proxy \<Rightarrow> Context \<Rightarrow> outcome \<times> call list" where
  "proxyDashboardDatasource ext e ctx =
     (case extractProjectDashboardDatasourceAndPath (req_URL_Path (Request ctx)) of
        Inl err \<Rightarrow> (Failed err, [])
      | Inr (projectName, dashboardName, dtsName, pth) \<Rightarrow>
          (case getDashboardDatasource ext e projectName dashboardName dtsName of
             (None, calls) \<Rightarrow> (Panicked, calls)
           | (Some (Inl err), calls) \<Rightarrow> (Failed err, calls)
           | (Some (Inr dts), calls) \<Rightarrow>
               (case newProxy ext dts pth (Crypto e)
                       (getProjectSecret ext e projectName dtsName) of
                  (r, calls') \<Rightarrow> (serve_result ext r ctx, calls @ calls'))))"

definition Proxy_Proxy :: "externals \<Rightarrow> Proxy \<Rightarrow> Context \<Rightarrow> outcome \<times> call list" where
  "Proxy_Proxy ext e c =
     (let requestPath = req_URL_Path (Request c);
          globalDatasourceMatch = MatchString globalProxyMatcher requestPath;
          projectDatasourceMatch = MatchString projectProxyMatcher requestPath;
          dashboardDatasourceMatch = MatchString dashboardProxyMatcher requestPath
      in if \<not> globalDatasourceMatch \<and> \<not> projectDatasourceMatch \<and> \<not> dashboardDatasourceMatch
         then (Next c, [])
         else if globalDatasourceMatch then proxyGlobalDatasource ext e c
         else if projectDatasourceMatch then proxyProjectDatasource ext e c
         else proxyDashboardDatasource ext e c)"


section \<open>Path templates\<close>

text \<open>
  The three templates of the specification: \<open>{name}\<close>, \<open>{project}\<close> and \<open>{dashboard}\<close>
  are non-empty words over \<open>[a-zA-Z0-9_-]\<close>; \<open>(/{rest})?\<close> is nothing, or a slash and
  any text.
\<close>

definition is_name :: "string \<Rightarrow> bool" where
  "is_name n = (0 < length n \<and> list_all is_name_char n)"

definition is_rest :: "string \<Rightarrow> bool" where
  "is_rest r = (case r of [] \<Rightarrow> True | c # _ \<Rightarrow> c = CHR ''/'')"

definition global_path :: "string \<Rightarrow> string \<Rightarrow> string" where
  "global_path name rest = ''/proxy/globaldatasources/'' @ name @ rest"

definition project_path :: "string \<Rightarrow> string \<Rightarrow> string \<Rightarrow> string" where
  "project_path project name rest =
     ''/proxy/projects/'' @ project @ ''/datasources/'' @ name @ rest"

definition dashboard_path :: "string \<Rightarrow> string \<Rightarrow> string \<Rightarrow> string \<Rightarrow> string" where
  "dashboard_path project dashboard name rest =
     ''/proxy/projects/'' @ project @ ''/dashboards/'' @ dashboard
       @ ''/datasources/'' @ name @ rest"

text \<open>
  A path is of a template when the whole of it is built as the template says. A path
  contains a template when some part of it begins as the template does, whatever stands
  before and after.
\<close>

definition of_global_template :: "string \<Rightarrow> bool" where
  "of_global_template s =
     (\<exists>name rest. is_name name \<and> is_rest rest \<and> s = global_path name rest)"

definition of_project_template :: "string \<Rightarrow> bool" where
  "of_project_template s =
     (\<exists>project name rest.
        is_name project \<and> is_name name \<and> is_rest rest \<and> s = project_path project name rest)"

definition of_dashboard_template :: "string \<Rightarrow> bool" where
  "of_dashboard_template s =
     (\<exists>project dashboard name rest.
        is_name project \<and> is_name dashboard \<and> is_name name \<and> is_rest rest
        \<and> s = dashboard_path project dashboard name rest)"

definition contains_global_template :: "string \<Rightarrow> bool" where
  "contains_global_template s =
     (\<exists>before name after. is_name name \<and> s = before @ global_path name after)"

definition contains_project_template :: "string \<Rightarrow> bool" where
  "contains_project_template s =
     (\<exists>before project name after.
        is_name project \<and> is_name name \<and> s = before @ project_path project name after)"

definition contains_dashboard_template :: "string \<Rightarrow> bool" where
  "contains_dashboard_template s =
     (\<exists>before project dashboard name after.
        is_name project \<and> is_name dashboard \<and> is_name name
        \<and> s = before @ dashboard_path project dashboard name after)"

section \<open>Concrete collaborators\<close>

text \<open>
  A small installation on which the functions are evaluated: one upstream, datasources
  whose plugin document names their secret, stores with a few entries.
\<close>

text \<open>\<open>%q\<close> on printable ASCII text without quotes or backslashes.\<close>

definition quote_ascii :: "string \<Rightarrow> string" where
  "quote_ascii s = CHR 0x22 # s @ [CHR 0x22]"

text \<open>The expression compiled from a literal without metacharacters.\<close>

definition literal_regexp :: "string \<Rightarrow> regexp" where
  "literal_regexp lit pre s = (if take (length lit) s = lit then Some [lit] else None)"

definition upstream :: url where
  "upstream = \<lparr>url_Scheme = ''https'', url_Host = ''prometheus.example:9090'', url_Path = []\<rparr>"

definition http_config :: "AllowedEndpoint list \<Rightarrow> string \<Rightarrow> Config" where
  "http_config allowed secretName =
     \<lparr>cfg_URL = upstream, cfg_AllowedEndpoints = allowed, cfg_Headers = [],
      cfg_Secret = secretName\<rparr>"

definition plugin_with_secret :: "string \<Rightarrow> json" where
  "plugin_with_secret secretName =
     JObject [(''kind'', JString ''PrometheusDatasource''), (''secret'', JString secretName)]"

definition extract_config :: "json \<Rightarrow> string + Config option" where
  "extract_config doc =
     (case doc of
        JObject [(k1, JString kind), (k2, JString secretName)] \<Rightarrow>
          Inr (Some (http_config [] secretName))
      | _ \<Rightarrow> Inl ''not an http datasource'')"

definition build_tls :: "prom_TLSConfig \<Rightarrow> string + tls_Config" where
  "build_tls cfg =
     (if prom_CAFile cfg = ''/missing.pem'' then Inl ''unable to read the CA file''
      else Inr \<lparr>tls_RootCAs = (if prom_CA cfg = [] then None else Some (prom_CA cfg)),
                tls_Certificates =
                  (if prom_Cert cfg = [] then [] else [(prom_Cert cfg, prom_Key cfg)]),
                tls_ServerName = prom_ServerName cfg,
                tls_InsecureSkipVerify = prom_InsecureSkipVerify cfg,
                tls_MinVersion = prom_MinVersion cfg,
                tls_MaxVersion = prom_MaxVersion cfg\<rparr>)"

definition upstream_ok :: "url \<Rightarrow> Transport \<Rightarrow> request \<Rightarrow> string + response" where
  "upstream_ok target transport req = Inr \<lparr>resp_Status = 200, resp_Body = ''{}''\<rparr>"

definition test_externals :: externals where
  "test_externals =
     \<lparr>quote = quote_ascii, ValidateAndExtract = extract_config,
      NewTLSConfig = build_tls, ServeHTTP = upstream_ok\<rparr>"

definition no_tls :: TLSConfig where
  "no_tls =
     \<lparr>CA = [], Cert = [], Key = [], CAFile = [], CertFile = [], KeyFile = [],
      ServerName = [], InsecureSkipVerify = False\<rparr>"

definition basic_u_p :: BasicAuth where
  "basic_u_p = \<lparr>Username = ''u'', GetPassword = Inr ''p''\<rparr>"

definition bearer_tok :: Authorization where
  "bearer_tok = \<lparr>Type = ''Bearer'', GetCredentials = Inr ''tok''\<rparr>"

definition secret_s1 :: SecretSpec where
  "secret_s1 =
     \<lparr>scrt_BasicAuth = Some basic_u_p, scrt_Authorization = None, scrt_TLSConfig = no_tls\<rparr>"

definition secret_both :: SecretSpec where
  "secret_both =
     \<lparr>scrt_BasicAuth = Some basic_u_p, scrt_Authorization = Some bearer_tok,
      scrt_TLSConfig = no_tls\<rparr>"

definition secret_tls :: SecretSpec where
  "secret_tls =
     \<lparr>scrt_BasicAuth = None, scrt_Authorization = None,
      scrt_TLSConfig = no_tls\<lparr>CA := ''ca-pem'', ServerName := ''prometheus.internal''\<rparr>\<rparr>"

definition secret_bad_ca :: SecretSpec where
  "secret_bad_ca =
     \<lparr>scrt_BasicAuth = None, scrt_Authorization = None,
      scrt_TLSConfig = no_tls\<lparr>CAFile := ''/missing.pem''\<rparr>\<rparr>"

text \<open>
  The stores: the project datasource \<open>p1/prom1\<close> and the global datasource \<open>gprom\<close>,
  both naming the secret \<open>s1\<close>; the dashboard \<open>p1/d1\<close> with the embedded datasources
  \<open>ds-key\<close>, which names no secret, and \<open>ds-auth\<close>, which names \<open>s1\<close>; the stores of
  the project \<open>broken\<close> fail. What the project and the global secret store hold
  for \<open>s1\<close> is a parameter, and so is what \<open>Decrypt\<close> does with a nil pointer.
\<close>

definition dashboard_d1 :: DashboardSpec where
  "dashboard_d1 =
     \<lparr>Datasources =
        [''ds-key'' \<mapsto> Some \<lparr>Plugin_Spec = plugin_with_secret []\<rparr>,
         ''ds-auth'' \<mapsto> Some \<lparr>Plugin_Spec = plugin_with_secret ''s1''\<rparr>]\<rparr>"

definition test_proxy ::
  "nil_behaviour \<Rightarrow> SecretSpec dao_result \<Rightarrow> SecretSpec dao_result \<Rightarrow> Proxy" where
  "test_proxy onNil projectS1 globalS1 =
     \<lparr>Dashboard =
        (\<lambda>project name.
           if project = ''p1'' \<and> name = ''d1''
           then Found dashboard_d1
           else if project = ''broken'' then DaoFailure ''connection refused by 10.1.2.3''
           else KeyNotFound),
      Secret =
        (\<lambda>project name. if project = ''p1'' \<and> name = ''s1'' then projectS1 else KeyNotFound),
      GlobalSecret = (\<lambda>name. if name = ''s1'' then globalS1 else KeyNotFound),
      DTS =
        (\<lambda>project name.
           if project = ''p1'' \<and> name = ''prom1''
           then Found \<lparr>Plugin_Spec = plugin_with_secret ''s1''\<rparr>
           else if project = ''broken'' then DaoFailure ''connection refused by 10.1.2.3''
           else KeyNotFound),
      GlobalDTS =
        (\<lambda>name.
           if name = ''gprom'' then Found \<lparr>Plugin_Spec = plugin_with_secret ''s1''\<rparr>
           else if name = ''broken'' then DaoFailure ''connection refused by 10.1.2.3''
           else KeyNotFound),
      Crypto = \<lparr>Decrypt = (\<lambda>s. Inr s), DecryptNil = onNil\<rparr>\<rparr>"

definition get_request :: "string \<Rightarrow> Context" where
  "get_request p =
     \<lparr>Request = \<lparr>req_Method = ''GET'', req_URL_Path = p, req_Host = ''perses.example'',
                  req_Header = Map.empty\<rparr>,
      RealIP = ''192.0.2.7'', Scheme = ''https''\<rparr>"

definition query_path :: string where
  "query_path = ''/proxy/projects/p1/datasources/prom1/api/v1/query''"

definition global_query_path :: string where
  "global_query_path = ''/proxy/globaldatasources/gprom/api/v1/query''"

definition dashboard_query_path :: string where
  "dashboard_query_path = ''/proxy/projects/p1/dashboards/d1/datasources/ds-auth/api/v1/query''"

text \<open>
  What a call has sent upstream: the \<open>Host\<close>, the path and the values of the
  \<open>Authorization\<close> header of the forwarded request.
\<close>

definition forwarded_headers :: "outcome \<Rightarrow> (string \<times> string \<times> string list) option" where
  "forwarded_headers out =
     (case out of
        Forwarded req transport answer \<Rightarrow>
          Some (req_Host req, req_URL_Path req,
                case req_Header req ''Authorization'' of None \<Rightarrow> [] | Some vs \<Rightarrow> vs)
      | _ \<Rightarrow> None)"

definition api_path :: string where
  "api_path = ''/api/v1/projects/p1/dashboards''"

definition prefixed_global_path :: string where
  "prefixed_global_path = ''/api/v1/proxy/globaldatasources/absent''"

definition embedded_global_path :: string where
  "embedded_global_path = project_path ''p1'' ''prom1'' ''/proxy/globaldatasources/gprom/x''"

definition query_only :: "AllowedEndpoint list" where
  "query_only = [\<lparr>EndpointPattern = literal_regexp ''/api/v1/query'', Method = ''GET''\<rparr>]"

definition test_httpProxy ::
  "AllowedEndpoint list \<Rightarrow> SecretSpec option \<Rightarrow> string \<Rightarrow> httpProxy" where
  "test_httpProxy allowed scrt pth =
     \<lparr>config = http_config allowed [], secret = scrt, path = pth\<rparr>"

definition prepared_request :: "string \<Rightarrow> request" where
  "prepared_request pth =
     \<lparr>req_Method = ''GET'', req_URL_Path = pth, req_Host = ''prometheus.example:9090'',
      req_Header = [''X-Real-Ip'' \<mapsto> [''192.0.2.7''], ''X-Forwarded-Proto'' \<mapsto> [''https'']]\<rparr>"

definition default_transport :: Transport where
  "default_transport =
     \<lparr>tr_ProxyFromEnvironment = True, tr_DialTimeout = 30, tr_DialKeepAlive = 30,
      tr_TLSHandshakeTimeout = 10, tr_IdleConnTimeout = 90, tr_ForceAttemptHTTP2 = True,
      tr_TLSClientConfig =
        \<lparr>tls_RootCAs = None, tls_Certificates = [], tls_ServerName = [],
         tls_InsecureSkipVerify = False, tls_MinVersion = 0x0303, tls_MaxVersion = 0\<rparr>\<rparr>"

text \<open>The values of the \<open>Authorization\<close> header after \<open>setupAuthentication\<close>.\<close>

definition authorization_values :: "string + request \<Rightarrow> string list" where
  "authorization_values r =
     (case r of
        Inl err \<Rightarrow> []
      | Inr req \<Rightarrow> (case req_Header req ''Authorization'' of None \<Rightarrow> [] | Some vs \<Rightarrow> vs))"


section \<open>Searching a text\<close>

text \<open>
  \<open>FindAllString\<close> finds something exactly when \<open>MatchString\<close> holds, that is, when
  the expression matches at some position of the text.
\<close>

lemma find_all_nonempty_iff:
  "find_all re False pre s \<noteq> [] \<longleftrightarrow> (\<exists>s1 s2. s = s1 @ s2 \<and> re (pre @ s1) s2 \<noteq> None)"
proof (induction s arbitrary: pre)
  case Nil
  show ?case by (subst find_all.simps) (auto split: option.splits)
next
  case (Cons c cs)
  show ?case
  proof (cases "re pre (c # cs)")
    case None
    have "find_all re False pre (c # cs) = find_all re False (pre @ [c]) cs"
      using None by (subst find_all.simps) simp
    moreover have "(\<exists>s1 s2. cs = s1 @ s2 \<and> re ((pre @ [c]) @ s1) s2 \<noteq> None)
        \<longleftrightarrow> (\<exists>s1 s2. c # cs = s1 @ s2 \<and> re (pre @ s1) s2 \<noteq> None)" (is "?L \<longleftrightarrow> ?R")
    proof
      assume ?L
      then obtain s1 s2 where "cs = s1 @ s2" "re ((pre @ [c]) @ s1) s2 \<noteq> None" by blast
      then have "c # cs = (c # s1) @ s2 \<and> re (pre @ (c # s1)) s2 \<noteq> None" by simp
      then show ?R by blast
    next
      assume ?R
      then obtain s1 s2 where s: "c # cs = s1 @ s2" "re (pre @ s1) s2 \<noteq> None" by blast
      with None have "s1 \<noteq> []" by auto
      with s(1) obtain t where "s1 = c # t" "cs = t @ s2" by (cases s1) auto
      with s(2) show ?L by auto
    qed
    ultimately show ?thesis using Cons.IH [of "pre @ [c]"] by simp
  next
    case (Some g)
    have "find_all re False pre (c # cs) \<noteq> []"
      using Some by (subst find_all.simps) simp
    moreover have "c # cs = [] @ (c # cs) \<and> re (pre @ []) (c # cs) \<noteq> None"
      using Some by simp
    ultimately show ?thesis by blast
  qed
qed

lemma match_from_iff:
  "match_from re pre s \<longleftrightarrow> (\<exists>s1 s2. s = s1 @ s2 \<and> re (pre @ s1) s2 \<noteq> None)"
proof (induction s arbitrary: pre)
  case Nil
  show ?case by (simp split: option.splits)
next
  case (Cons c cs)
  have "(\<exists>s1 s2. c # cs = s1 @ s2 \<and> re (pre @ s1) s2 \<noteq> None)
      \<longleftrightarrow> re pre (c # cs) \<noteq> None \<or> (\<exists>s1 s2. cs = s1 @ s2 \<and> re ((pre @ [c]) @ s1) s2 \<noteq> None)"
    (is "?L \<longleftrightarrow> ?A \<or> ?B")
  proof
    assume ?L
    then obtain s1 s2 where s: "c # cs = s1 @ s2" "re (pre @ s1) s2 \<noteq> None" by blast
    show "?A \<or> ?B"
    proof (cases s1)
      case Nil
      with s show ?thesis by simp
    next
      case (Cons a t)
      with s have "cs = t @ s2" "re ((pre @ [c]) @ t) s2 \<noteq> None" by auto
      then show ?thesis by blast
    qed
  next
    assume "?A \<or> ?B"
    then show ?L
    proof
      assume ?A
      then have "c # cs = [] @ (c # cs) \<and> re (pre @ []) (c # cs) \<noteq> None" by simp
      then show ?L by blast
    next
      assume ?B
      then obtain s1 s2 where "cs = s1 @ s2" "re ((pre @ [c]) @ s1) s2 \<noteq> None" by blast
      then have "c # cs = (c # s1) @ s2 \<and> re (pre @ (c # s1)) s2 \<noteq> None" by simp
      then show ?L by blast
    qed
  qed
  with Cons.IH [of "pre @ [c]"] show ?case by (auto split: option.splits)
qed

lemma MatchString_iff:
  "MatchString re s \<longleftrightarrow> (\<exists>s1 s2. s = s1 @ s2 \<and> re s1 s2 \<noteq> None)"
  using match_from_iff [of re "[]" s] by (simp add: MatchString_def)

lemma FindAllString_nonempty:
  "FindAllString re s \<noteq> [] \<longleftrightarrow> MatchString re s"
  using find_all_nonempty_iff [of re "[]" s] by (simp add: FindAllString_def MatchString_iff)

section \<open>The allow-list\<close>

lemma isAllowed_iff:
  "isAllowed h req \<longleftrightarrow>
     (\<exists>ae\<in>set (cfg_AllowedEndpoints (config h)).
        Method ae = req_Method req \<and> MatchString (EndpointPattern ae) (path h))"
  by (simp add: isAllowed_def list_ex_iff FindAllString_nonempty)

lemma serve_cases:
  "serve ext h c = Failed (not_allowed ext (path h) (req_Method (Request c)))
   \<or> serve ext h c = Failed internal_server_error_status_text
   \<or> serve ext h c = Failed (HTTPError StatusBadGateway ''unable build the tls config'')
   \<or> (\<exists>req tr. serve ext h c = Forwarded req tr (ServeHTTP ext (cfg_URL (config h)) tr req))"
  by (auto simp: serve_def prepareTransport_def split: sum.splits)

lemma serve_forbidden_iff:
  "serve ext h c = Failed (HTTPError StatusForbidden msg) \<longleftrightarrow>
     cfg_AllowedEndpoints (config h) \<noteq> [] \<and> \<not> isAllowed h (Request c)
     \<and> msg = ''you are not allowed to use this endpoint '' @ quote ext (path h)
               @ '' with the HTTP method '' @ req_Method (Request c)"
  by (auto simp: serve_def prepareTransport_def not_allowed_def
        internal_server_error_status_text_def StatusForbidden_def
        StatusInternalServerError_def StatusBadGateway_def split: sum.splits)

lemma serve_forwarded_allowed:
  "serve ext h c = Forwarded req tr res \<Longrightarrow>
     cfg_AllowedEndpoints (config h) = [] \<or> isAllowed h (Request c)"
  by (auto simp: serve_def split: if_splits)

text \<open>
  Claim C4. For every call of \<open>serve\<close>: when the allow-list of the datasource is empty,
  the call never returns the 403 of the allow-list, whatever its message. When the
  allow-list is not empty, the request is forwarded only if some entry has exactly the
  method of the request and a pattern that matches the forwarded path; and when no
  entry does, the call returns 403 with the message that names the rejected path and
  the method.
\<close>

theorem allow_list_enforced:
  "(cfg_AllowedEndpoints (config h) = []
      \<longrightarrow> serve ext h c \<noteq> Failed (HTTPError 403 msg))
   \<and> (cfg_AllowedEndpoints (config h) \<noteq> [] \<longrightarrow>
        (serve ext h c = Forwarded req tr res \<longrightarrow>
           (\<exists>ae \<in> set (cfg_AllowedEndpoints (config h)).
              Method ae = req_Method (Request c) \<and> MatchString (EndpointPattern ae) (path h)))
        \<and> (\<not> (\<exists>ae \<in> set (cfg_AllowedEndpoints (config h)).
                 Method ae = req_Method (Request c) \<and> MatchString (EndpointPattern ae) (path h))
             \<longrightarrow> serve ext h c =
                   Failed (HTTPError 403
                     (''you are not allowed to use this endpoint '' @ quote ext (path h)
                        @ '' with the HTTP method '' @ req_Method (Request c)))))"
proof (intro conjI impI)
  assume "cfg_AllowedEndpoints (config h) = []"
  then show "serve ext h c \<noteq> Failed (HTTPError 403 msg)"
    using serve_forbidden_iff [of ext h c msg] by (simp add: StatusForbidden_def)
next
  assume "cfg_AllowedEndpoints (config h) \<noteq> []" and "serve ext h c = Forwarded req tr res"
  then show "\<exists>ae \<in> set (cfg_AllowedEndpoints (config h)).
      Method ae = req_Method (Request c) \<and> MatchString (EndpointPattern ae) (path h)"
    using serve_forwarded_allowed [of ext h c req tr res] by (simp add: isAllowed_iff)
next
  assume "cfg_AllowedEndpoints (config h) \<noteq> []"
    and "\<not> (\<exists>ae \<in> set (cfg_AllowedEndpoints (config h)).
            Method ae = req_Method (Request c) \<and> MatchString (EndpointPattern ae) (path h))"
  then show "serve ext h c =
      Failed (HTTPError 403
        (''you are not allowed to use this endpoint '' @ quote ext (path h)
           @ '' with the HTTP method '' @ req_Method (Request c)))"
    using serve_forbidden_iff [of ext h c] by (simp add: isAllowed_iff StatusForbidden_def)
qed

text \<open>
  Claim C5. The pattern of an allow-list entry is searched in the forwarded path, not
  matched against the whole of it: whenever an entry has the method of the request and
  its pattern matches a part \<open>inside\<close> of the forwarded path, with any text \<open>before\<close>
  and \<open>after\<close> it, the request passes the allow-list (the call does not return its 403).
\<close>

theorem allow_list_pattern_unanchored:
  assumes "ae \<in> set (cfg_AllowedEndpoints (config h))"
    and "Method ae = req_Method (Request c)"
    and "path h = before @ inside @ after"
    and "EndpointPattern ae before (inside @ after) = Some (inside # groups)"
  shows "isAllowed h (Request c) \<and> serve ext h c \<noteq> Failed (HTTPError 403 msg)"
proof -
  have "path h = before @ (inside @ after) \<and> EndpointPattern ae before (inside @ after) \<noteq> None"
    using assms(3,4) by simp
  then have "MatchString (EndpointPattern ae) (path h)"
    unfolding MatchString_iff by blast
  with assms(1,2) have allowed: "isAllowed h (Request c)"
    unfolding isAllowed_iff by blast
  then show ?thesis
    using serve_forbidden_iff [of ext h c msg] by (simp add: StatusForbidden_def)
qed


subsection \<open>Evaluation on the example\<close>

lemmas serve_defs =
  serve_def isAllowed_def prepareRequest_def setupAuthentication_def SetBasicAuth_def
  prepareTransport_def prepareTLSConfig_def Header_Get_def Header_Set_def
  not_allowed_def internal_server_error_status_text_def tls_Config_zero_def

lemmas fixture_defs =
  test_externals_def test_proxy_def get_request_def extract_config_def
  plugin_with_secret_def http_config_def upstream_def build_tls_def upstream_ok_def
  dashboard_d1_def secret_s1_def secret_both_def secret_bad_ca_def basic_u_p_def bearer_tok_def no_tls_def
  forwarded_headers_def query_only_def test_httpProxy_def prepared_request_def
  default_transport_def quote_ascii_def authorization_values_def

lemmas status_defs =
  StatusForbidden_def StatusNotFound_def StatusInternalServerError_def StatusBadGateway_def
  VersionTLS12_def VersionTLS13_def

lemma canonical_Authorization: "CanonicalMIMEHeaderKey ''Authorization'' = ''Authorization''"
  by code_simp

lemma canonical_XRealIP: "CanonicalMIMEHeaderKey HeaderXRealIP = ''X-Real-Ip''"
  by code_simp

lemma canonical_XForwardedProto:
  "CanonicalMIMEHeaderKey HeaderXForwardedProto = ''X-Forwarded-Proto''"
  by code_simp

lemmas canonical_keys = canonical_Authorization canonical_XRealIP canonical_XForwardedProto

lemma base64_u_p: "base64 ''u:p'' = ''dTpw''"
  by code_simp

lemma literal_query_on_query:
  "FindAllString (literal_regexp ''/api/v1/query'') ''/api/v1/query'' = [''/api/v1/query'']"
  by code_simp

lemma literal_query_on_admin:
  "FindAllString (literal_regexp ''/api/v1/query'') ''/api/v1/admin'' = []"
  by code_simp

lemma literal_query_matches_query:
  "MatchString (literal_regexp ''/api/v1/query'') ''/api/v1/query'' = True"
  by code_simp

lemma serve_open:
  "serve test_externals (test_httpProxy [] None ''/api/v1/admin'') (get_request query_path)
     = Forwarded (prepared_request ''/api/v1/admin'') default_transport
         (Inr \<lparr>resp_Status = 200, resp_Body = ''{}''\<rparr>)"
  by (simp add: serve_defs fixture_defs status_defs canonical_keys)

lemma serve_query_allowed:
  "serve test_externals (test_httpProxy query_only None ''/api/v1/query'')
       (get_request query_path)
     = Forwarded (prepared_request ''/api/v1/query'') default_transport
         (Inr \<lparr>resp_Status = 200, resp_Body = ''{}''\<rparr>)"
  by (simp add: serve_defs fixture_defs status_defs canonical_keys literal_query_on_query)

text \<open>
  The theorem on three calls: an empty allow-list; the allow-list \<open>GET
  /api/v1/query\<close> with the forwarded path \<open>/api/v1/query\<close>, which is
  forwarded; and with the forwarded path \<open>/api/v1/admin\<close>, which is refused.
\<close>

theorem allow_list_enforced_witness:
  "cfg_AllowedEndpoints (config (test_httpProxy [] None ''/api/v1/admin'')) = []
   \<and> serve test_externals (test_httpProxy [] None ''/api/v1/admin'') (get_request query_path)
       \<noteq> Failed (HTTPError 403
            (''you are not allowed to use this endpoint '' @ quote_ascii ''/api/v1/admin''
               @ '' with the HTTP method GET''))
   \<and> cfg_AllowedEndpoints (config (test_httpProxy query_only None ''/api/v1/query'')) \<noteq> []
   \<and> serve test_externals (test_httpProxy query_only None ''/api/v1/query'')
         (get_request query_path)
       = Forwarded (prepared_request ''/api/v1/query'') default_transport
           (Inr \<lparr>resp_Status = 200, resp_Body = ''{}''\<rparr>)
   \<and> list_ex (\<lambda>ae. Method ae = ''GET''
                  \<and> MatchString (EndpointPattern ae) ''/api/v1/query'') query_only
   \<and> cfg_AllowedEndpoints (config (test_httpProxy query_only None ''/api/v1/admin'')) \<noteq> []
   \<and> serve test_externals (test_httpProxy query_only None ''/api/v1/admin'')
         (get_request query_path)
       = Failed (HTTPError 403
           (''you are not allowed to use this endpoint '' @ quote_ascii ''/api/v1/admin''
              @ '' with the HTTP method GET''))"
proof -
  have none: "MatchString (literal_regexp ''/api/v1/query'') ''/api/v1/admin'' = False"
    by code_simp
  note a = allow_list_enforced
    [of "test_httpProxy [] None ''/api/v1/admin''" test_externals "get_request query_path"
        "''you are not allowed to use this endpoint '' @ quote_ascii ''/api/v1/admin''
           @ '' with the HTTP method GET''"]
  note b = allow_list_enforced
    [of "test_httpProxy query_only None ''/api/v1/query''" test_externals
        "get_request query_path" _ "prepared_request ''/api/v1/query''" default_transport
        "Inr \<lparr>resp_Status = 200, resp_Body = ''{}''\<rparr>"]
  note c = allow_list_enforced
    [of "test_httpProxy query_only None ''/api/v1/admin''" test_externals
        "get_request query_path"]
  have 1: "serve test_externals (test_httpProxy [] None ''/api/v1/admin'') (get_request query_path)
       \<noteq> Failed (HTTPError 403
            (''you are not allowed to use this endpoint '' @ quote_ascii ''/api/v1/admin''
               @ '' with the HTTP method GET''))"
    using a by (simp add: test_httpProxy_def http_config_def)
  have 2: "list_ex (\<lambda>ae. Method ae = ''GET''
                  \<and> MatchString (EndpointPattern ae) ''/api/v1/query'') query_only"
    using b serve_query_allowed
    by (simp add: test_httpProxy_def http_config_def query_only_def get_request_def)
  have 3: "serve test_externals (test_httpProxy query_only None ''/api/v1/admin'')
         (get_request query_path)
       = Failed (HTTPError 403
           (''you are not allowed to use this endpoint '' @ quote_ascii ''/api/v1/admin''
              @ '' with the HTTP method GET''))"
    using c none
    by (simp add: test_httpProxy_def http_config_def query_only_def get_request_def
          test_externals_def)
  show ?thesis
    using 1 2 3 serve_query_allowed
    by (simp add: test_httpProxy_def http_config_def query_only_def)
qed

text \<open>
  The theorem on the allow-list \<open>GET /api/v1/query\<close> and the forwarded path
  \<open>/admin/api/v1/query/delete\<close>: the pattern matches inside the path and the
  request passes.
\<close>

theorem allow_list_pattern_unanchored_witness:
  "\<lparr>EndpointPattern = literal_regexp ''/api/v1/query'', Method = ''GET''\<rparr>
     \<in> set (cfg_AllowedEndpoints
              (config (test_httpProxy query_only None ''/admin/api/v1/query/delete'')))
   \<and> req_Method (Request (get_request query_path)) = ''GET''
   \<and> ''/admin/api/v1/query/delete'' = ''/admin'' @ ''/api/v1/query'' @ ''/delete''
   \<and> literal_regexp ''/api/v1/query'' ''/admin'' (''/api/v1/query'' @ ''/delete'')
       = Some [''/api/v1/query'']
   \<and> isAllowed (test_httpProxy query_only None ''/admin/api/v1/query/delete'')
        (Request (get_request query_path))
   \<and> serve test_externals (test_httpProxy query_only None ''/admin/api/v1/query/delete'')
         (get_request query_path)
       \<noteq> Failed (HTTPError 403
            (''you are not allowed to use this endpoint ''
               @ quote_ascii ''/admin/api/v1/query/delete'' @ '' with the HTTP method GET''))"
  using allow_list_pattern_unanchored
    [of "\<lparr>EndpointPattern = literal_regexp ''/api/v1/query'', Method = ''GET''\<rparr>"
        "test_httpProxy query_only None ''/admin/api/v1/query/delete''"
        "get_request query_path" "''/admin''" "''/api/v1/query''" "''/delete''" "[]"
        test_externals
        "''you are not allowed to use this endpoint ''
           @ quote_ascii ''/admin/api/v1/query/delete'' @ '' with the HTTP method GET''"]
  by (simp add: test_httpProxy_def http_config_def query_only_def get_request_def
        literal_regexp_def)


section \<open>What the three matchers match\<close>

lemma slash_not_name_char: "\<not> is_name_char CHR ''/''"
  by (simp add: is_name_char_def name_chars_def)

lemma strip_literal_append: "strip_literal lit (lit @ s) = Some s"
  by (simp add: strip_literal_def)

lemma name_group_rest:
  assumes "is_name n" "is_rest r"
  shows "name_group (n @ r) = Some (n, r)"
proof -
  from assms(2) have r: "r = [] \<or> (\<exists>cs. r = CHR ''/'' # cs)"
    by (auto simp: is_rest_def split: list.splits)
  from assms(1) have all: "\<forall>c\<in>set n. is_name_char c" and ne: "n \<noteq> []"
    by (auto simp: is_name_def list_all_iff)
  from r all have "takeWhile is_name_char (n @ r) = n \<and> dropWhile is_name_char (n @ r) = r"
    by (auto simp: slash_not_name_char)
  with ne show ?thesis by (simp add: name_group_def)
qed

lemma rest_group_id:
  assumes "is_rest r" "newline \<notin> set r"
  shows "rest_group r = r"
proof (cases r)
  case Nil
  then show ?thesis by (simp add: rest_group_def)
next
  case (Cons c cs)
  with assms have c: "c = CHR ''/''" and "\<forall>x\<in>set cs. x \<noteq> newline"
    by (auto simp: is_rest_def)
  then have "takeWhile (\<lambda>x. x \<noteq> newline) cs = cs" by simp
  with Cons c show ?thesis by (simp add: rest_group_def)
qed

lemma find_all_single:
  assumes "re [] s = Some g" "match_len g = length s" "s \<noteq> []" "re s [] = None"
  shows "find_all re False [] s = [g]"
proof -
  have "find_all re True s [] = []"
    using assms(4) by (subst find_all.simps) simp
  then show ?thesis
    using assms(1-3) by (subst find_all.simps) simp
qed

lemma is_rest_datasources: "is_rest (''/datasources/'' @ x)"
  by (simp add: is_rest_def)

lemma is_rest_dashboards: "is_rest (''/dashboards/'' @ x)"
  by (simp add: is_rest_def)

lemma strip_literal_SomeD: "strip_literal lit s = Some r \<Longrightarrow> s = lit @ r"
  by (metis append_take_drop_id option.distinct(1) option.inject strip_literal_def)

lemma name_group_SomeD:
  assumes "name_group s = Some (n, r)"
  shows "is_name n \<and> s = n @ r"
proof -
  from assms have n: "n = takeWhile is_name_char s" and r: "r = dropWhile is_name_char s"
    and ne: "takeWhile is_name_char s \<noteq> []"
    by (auto simp: name_group_def split: if_splits)
  have "list_all is_name_char (takeWhile is_name_char s)"
    by (auto simp: list_all_iff dest: set_takeWhileD)
  with n r ne show ?thesis by (simp add: is_name_def)
qed

lemma name_group_append:
  assumes "is_name n"
  shows "\<exists>m r. name_group (n @ after) = Some (m, r)"
proof -
  from assms have "\<forall>c\<in>set n. is_name_char c" and "n \<noteq> []"
    by (auto simp: is_name_def list_all_iff)
  then have "takeWhile is_name_char (n @ after) = n @ takeWhile is_name_char after"
    and "n \<noteq> []"
    by simp_all
  then show ?thesis by (simp add: name_group_def)
qed

lemma globalProxyMatcher_iff:
  "globalProxyMatcher pre s \<noteq> None \<longleftrightarrow>
     (\<exists>name after. is_name name \<and> s = global_path name after)"
proof
  assume "globalProxyMatcher pre s \<noteq> None"
  then obtain s1 n s2 where "strip_literal ''/proxy/globaldatasources/'' s = Some s1"
    and "name_group s1 = Some (n, s2)"
    by (auto simp: globalProxyMatcher_def split: option.splits)
  then have "is_name n \<and> s = global_path n s2"
    using strip_literal_SomeD name_group_SomeD unfolding global_path_def by blast
  then show "\<exists>name after. is_name name \<and> s = global_path name after" by blast
next
  assume "\<exists>name after. is_name name \<and> s = global_path name after"
  then obtain name after where n: "is_name name" and s: "s = global_path name after" by blast
  from name_group_append [OF n] obtain m r where "name_group (name @ after) = Some (m, r)"
    by blast
  with s show "globalProxyMatcher pre s \<noteq> None"
    by (simp add: globalProxyMatcher_def global_path_def strip_literal_append
          del: append.simps)
qed

lemma projectProxyMatcher_iff:
  "projectProxyMatcher pre s \<noteq> None \<longleftrightarrow>
     (\<exists>project name after.
        is_name project \<and> is_name name \<and> s = project_path project name after)"
proof
  assume "projectProxyMatcher pre s \<noteq> None"
  then obtain s1 p s2 s3 n s4 where "strip_literal ''/proxy/projects/'' s = Some s1"
    and "name_group s1 = Some (p, s2)"
    and "strip_literal ''/datasources/'' s2 = Some s3"
    and "name_group s3 = Some (n, s4)"
    by (auto simp: projectProxyMatcher_def split: option.splits)
  then have "is_name p \<and> is_name n \<and> s = project_path p n s4"
    using strip_literal_SomeD name_group_SomeD unfolding project_path_def by blast
  then show "\<exists>project name after.
      is_name project \<and> is_name name \<and> s = project_path project name after"
    by blast
next
  assume "\<exists>project name after.
      is_name project \<and> is_name name \<and> s = project_path project name after"
  then obtain p n after where p: "is_name p" and n: "is_name n"
    and s: "s = project_path p n after"
    by blast
  from name_group_append [OF n] obtain m r where m: "name_group (n @ after) = Some (m, r)"
    by blast
  show "projectProxyMatcher pre s \<noteq> None"
    unfolding projectProxyMatcher_def s project_path_def
    by (simp only: strip_literal_append option.case prod.case
          name_group_rest [OF p is_rest_datasources] m option.distinct not_False_eq_True)
qed

lemma dashboardProxyMatcher_iff:
  "dashboardProxyMatcher pre s \<noteq> None \<longleftrightarrow>
     (\<exists>project dashboard name after.
        is_name project \<and> is_name dashboard \<and> is_name name
        \<and> s = dashboard_path project dashboard name after)"
proof
  assume "dashboardProxyMatcher pre s \<noteq> None"
  then obtain s1 p s2 s3 d s4 s5 n s6 where "strip_literal ''/proxy/projects/'' s = Some s1"
    and "name_group s1 = Some (p, s2)"
    and "strip_literal ''/dashboards/'' s2 = Some s3"
    and "name_group s3 = Some (d, s4)"
    and "strip_literal ''/datasources/'' s4 = Some s5"
    and "name_group s5 = Some (n, s6)"
    by (auto simp: dashboardProxyMatcher_def split: option.splits)
  then have "is_name p \<and> is_name d \<and> is_name n \<and> s = dashboard_path p d n s6"
    using strip_literal_SomeD name_group_SomeD unfolding dashboard_path_def by blast
  then show "\<exists>project dashboard name after.
      is_name project \<and> is_name dashboard \<and> is_name name
      \<and> s = dashboard_path project dashboard name after"
    by blast
next
  assume "\<exists>project dashboard name after.
      is_name project \<and> is_name dashboard \<and> is_name name
      \<and> s = dashboard_path project dashboard name after"
  then obtain p d n after where p: "is_name p" and d: "is_name d" and n: "is_name n"
    and s: "s = dashboard_path p d n after"
    by blast
  from name_group_append [OF n] obtain m r where m: "name_group (n @ after) = Some (m, r)"
    by blast
  show "dashboardProxyMatcher pre s \<noteq> None"
    unfolding dashboardProxyMatcher_def s dashboard_path_def
    by (simp only: strip_literal_append option.case prod.case
          name_group_rest [OF p is_rest_dashboards]
          name_group_rest [OF d is_rest_datasources] m option.distinct not_False_eq_True)
qed

text \<open>
  The matchers are not anchored: each matches a path exactly when the path contains its
  template.
\<close>

lemma global_match_iff: "MatchString globalProxyMatcher s \<longleftrightarrow> contains_global_template s"
  unfolding MatchString_iff contains_global_template_def globalProxyMatcher_iff by blast

lemma project_match_iff: "MatchString projectProxyMatcher s \<longleftrightarrow> contains_project_template s"
  unfolding MatchString_iff contains_project_template_def projectProxyMatcher_iff by blast

lemma dashboard_match_iff:
  "MatchString dashboardProxyMatcher s \<longleftrightarrow> contains_dashboard_template s"
  unfolding MatchString_iff contains_dashboard_template_def dashboardProxyMatcher_iff by blast


section \<open>Store failures\<close>

text \<open>
  Claim C9. Each of the three resolvers answers a store's not-found with 404 (for the
  dashboard resolver also when the dashboard is found and the key is missing from its
  embedded datasources), and any other failure of the store with 500 and the message
  \<open>internal server error\<close>, whatever the detail of the failure is.
\<close>

theorem resolvers_map_store_errors:
  "(GlobalDTS e name = KeyNotFound \<longrightarrow>
      fst (getGlobalDatasource ext e name) =
        Inl (HTTPError 404 (''unable to forward the request to the datasource ''
               @ quote ext name @ '', datasource doesn't exist'')))
   \<and> (GlobalDTS e name = DaoFailure detail \<longrightarrow>
      fst (getGlobalDatasource ext e name) = Inl (HTTPError 500 ''internal server error''))
   \<and> (DTS e project name = KeyNotFound \<longrightarrow>
      fst (getProjectDatasource ext e project name) =
        Inl (HTTPError 404 (''unable to forward the request to the datasource ''
               @ quote ext name @ '', datasource doesn't exist'')))
   \<and> (DTS e project name = DaoFailure detail \<longrightarrow>
      fst (getProjectDatasource ext e project name) =
        Inl (HTTPError 500 ''internal server error''))
   \<and> (Dashboard e project dashboard = KeyNotFound \<longrightarrow>
      fst (getDashboardDatasource ext e project dashboard name) =
        Some (Inl (HTTPError 404 (''unable to forward the request to the datasource ''
                     @ quote ext name @ '', datasource doesn't exist''))))
   \<and> (Dashboard e project dashboard = DaoFailure detail \<longrightarrow>
      fst (getDashboardDatasource ext e project dashboard name) =
        Some (Inl (HTTPError 500 ''internal server error'')))
   \<and> (Dashboard e project dashboard = Found db \<and> Datasources db name = None \<longrightarrow>
      fst (getDashboardDatasource ext e project dashboard name) =
        Some (Inl (HTTPError 404 (''unable to forward the request to the datasource ''
                     @ quote ext name @ '', datasource doesn't exist''))))"
  by (simp add: getGlobalDatasource_def getProjectDatasource_def getDashboardDatasource_def
        datasource_not_found_def internal_server_error_def StatusNotFound_def
        StatusInternalServerError_def)

text \<open>
  The theorem on the stores of the example: entries that are absent, the project
  \<open>broken\<close> whose stores fail, and a key that the dashboard
  \<open>p1/d1\<close> does not embed.
\<close>

theorem resolvers_map_store_errors_witness:
  "GlobalDTS (test_proxy NilPanics KeyNotFound KeyNotFound) ''absent'' = KeyNotFound
   \<and> fst (getGlobalDatasource test_externals (test_proxy NilPanics KeyNotFound KeyNotFound)
            ''absent'')
       = Inl (HTTPError 404 (''unable to forward the request to the datasource ''
                @ quote_ascii ''absent'' @ '', datasource doesn't exist''))
   \<and> GlobalDTS (test_proxy NilPanics KeyNotFound KeyNotFound) ''broken''
       = DaoFailure ''connection refused by 10.1.2.3''
   \<and> fst (getGlobalDatasource test_externals (test_proxy NilPanics KeyNotFound KeyNotFound)
            ''broken'')
       = Inl (HTTPError 500 ''internal server error'')
   \<and> DTS (test_proxy NilPanics KeyNotFound KeyNotFound) ''p1'' ''absent'' = KeyNotFound
   \<and> fst (getProjectDatasource test_externals (test_proxy NilPanics KeyNotFound KeyNotFound)
            ''p1'' ''absent'')
       = Inl (HTTPError 404 (''unable to forward the request to the datasource ''
                @ quote_ascii ''absent'' @ '', datasource doesn't exist''))
   \<and> DTS (test_proxy NilPanics KeyNotFound KeyNotFound) ''broken'' ''prom1''
       = DaoFailure ''connection refused by 10.1.2.3''
   \<and> fst (getProjectDatasource test_externals (test_proxy NilPanics KeyNotFound KeyNotFound)
            ''broken'' ''prom1'')
       = Inl (HTTPError 500 ''internal server error'')
   \<and> Dashboard (test_proxy NilPanics KeyNotFound KeyNotFound) ''p1'' ''absent'' = KeyNotFound
   \<and> fst (getDashboardDatasource test_externals
            (test_proxy NilPanics KeyNotFound KeyNotFound) ''p1'' ''absent'' ''ds-key'')
       = Some (Inl (HTTPError 404 (''unable to forward the request to the datasource ''
                      @ quote_ascii ''ds-key'' @ '', datasource doesn't exist'')))
   \<and> Dashboard (test_proxy NilPanics KeyNotFound KeyNotFound) ''broken'' ''d1''
       = DaoFailure ''connection refused by 10.1.2.3''
   \<and> fst (getDashboardDatasource test_externals
            (test_proxy NilPanics KeyNotFound KeyNotFound) ''broken'' ''d1'' ''ds-key'')
       = Some (Inl (HTTPError 500 ''internal server error''))
   \<and> Datasources dashboard_d1
         ''other-key'' = None
   \<and> fst (getDashboardDatasource test_externals
            (test_proxy NilPanics KeyNotFound KeyNotFound) ''p1'' ''d1'' ''other-key'')
       = Some (Inl (HTTPError 404 (''unable to forward the request to the datasource ''
                      @ quote_ascii ''other-key'' @ '', datasource doesn't exist'')))"
  using
    resolvers_map_store_errors
      [of "test_proxy NilPanics KeyNotFound KeyNotFound" "''absent''" test_externals _ "''p1''"
          "''absent''"]
    resolvers_map_store_errors
      [of "test_proxy NilPanics KeyNotFound KeyNotFound" "''broken''" test_externals
          "''connection refused by 10.1.2.3''" "''broken''" "''d1''"]
    resolvers_map_store_errors
      [of "test_proxy NilPanics KeyNotFound KeyNotFound" "''prom1''" test_externals
          "''connection refused by 10.1.2.3''" "''broken''" "''d1''"]
    resolvers_map_store_errors
      [of "test_proxy NilPanics KeyNotFound KeyNotFound" "''ds-key''" test_externals
          "''connection refused by 10.1.2.3''" "''p1''" "''absent''"]
    resolvers_map_store_errors
      [of "test_proxy NilPanics KeyNotFound KeyNotFound" "''ds-key''" test_externals
          "''connection refused by 10.1.2.3''" "''broken''" "''d1''"]
    resolvers_map_store_errors
      [of "test_proxy NilPanics KeyNotFound KeyNotFound" "''other-key''" test_externals _
          "''p1''" "''d1''"
          "dashboard_d1"]
  by (simp add: test_proxy_def test_externals_def dashboard_d1_def)

section \<open>Requests that are not for the proxy\<close>

lemma serve_not_Next: "serve ext h c \<noteq> Next c'"
  by (auto simp: serve_def split: sum.splits)

lemma serve_result_not_Next: "serve_result ext r ctx \<noteq> Next c'"
  by (auto simp: serve_result_def serve_not_Next split: newProxy_result.splits option.splits)

lemma proxyGlobalDatasource_not_Next: "fst (proxyGlobalDatasource ext e ctx) \<noteq> Next c'"
  by (auto simp: proxyGlobalDatasource_def serve_result_not_Next
        split: sum.splits prod.splits)

lemma proxyProjectDatasource_not_Next: "fst (proxyProjectDatasource ext e ctx) \<noteq> Next c'"
  by (auto simp: proxyProjectDatasource_def serve_result_not_Next
        split: sum.splits prod.splits)

lemma proxyDashboardDatasource_not_Next: "fst (proxyDashboardDatasource ext e ctx) \<noteq> Next c'"
  by (auto simp: proxyDashboardDatasource_def serve_result_not_Next
        split: sum.splits prod.splits option.splits)

lemma prefixed_global_path_global: "MatchString globalProxyMatcher prefixed_global_path = True"
  by code_simp

lemma prefixed_global_path_extract:
  "extractGlobalDatasourceAndPath prefixed_global_path = Inr (''absent'', ''/'')"
  by code_simp

lemma api_path_global: "MatchString globalProxyMatcher api_path = False"
  by code_simp

lemma api_path_project: "MatchString projectProxyMatcher api_path = False"
  by code_simp

lemma api_path_dashboard: "MatchString dashboardProxyMatcher api_path = False"
  by code_simp

lemma prefixed_global_path_proxied:
  "Proxy_Proxy test_externals (test_proxy NilPanics KeyNotFound KeyNotFound)
       (get_request prefixed_global_path)
     = (Failed (HTTPError 404
          (''unable to forward the request to the datasource '' @ quote_ascii ''absent''
             @ '', datasource doesn't exist'')),
        [GlobalDTS_Get ''absent''])"
  by (simp add: Proxy_Proxy_def proxyGlobalDatasource_def getGlobalDatasource_def
        datasource_not_found_def StatusNotFound_def test_proxy_def test_externals_def
        get_request_def prefixed_global_path_global prefixed_global_path_extract)

text \<open>
  Claim C7 says that a request whose path is of none of the three templates goes to the
  next handler and reaches no store. It does not when the path contains a template
  further in, since the matchers are not anchored: the path
  \<open>/api/v1/proxy/globaldatasources/absent\<close> is of no template, and the middleware
  asks the global datasource store for \<open>absent\<close> and answers 404.
\<close>

theorem path_of_no_template_counterexample:
  "\<not> of_global_template ''/api/v1/proxy/globaldatasources/absent''
   \<and> \<not> of_project_template ''/api/v1/proxy/globaldatasources/absent''
   \<and> \<not> of_dashboard_template ''/api/v1/proxy/globaldatasources/absent''
   \<and> Proxy_Proxy test_externals (test_proxy NilPanics KeyNotFound KeyNotFound)
         (get_request ''/api/v1/proxy/globaldatasources/absent'')
       = (Failed (HTTPError 404
            (''unable to forward the request to the datasource '' @ quote_ascii ''absent''
               @ '', datasource doesn't exist'')),
          [GlobalDTS_Get ''absent''])"
proof -
  have "\<not> of_global_template ''/api/v1/proxy/globaldatasources/absent''"
    by (simp add: of_global_template_def global_path_def)
  moreover have "\<not> of_project_template ''/api/v1/proxy/globaldatasources/absent''"
    by (simp add: of_project_template_def project_path_def)
  moreover have "\<not> of_dashboard_template ''/api/v1/proxy/globaldatasources/absent''"
    by (simp add: of_dashboard_template_def dashboard_path_def)
  ultimately show ?thesis
    using prefixed_global_path_proxied by (simp add: prefixed_global_path_def)
qed

text \<open>
  Claim C7, amended. A request whose path contains none of the three templates, at its
  start or further in, is given to the next handler as it came, and no store and no
  \<open>Crypto\<close> is called. A request whose path contains one of them is never given to the
  next handler.
\<close>

theorem path_without_template_passes_through:
  "(\<not> contains_global_template (req_URL_Path (Request c))
      \<and> \<not> contains_project_template (req_URL_Path (Request c))
      \<and> \<not> contains_dashboard_template (req_URL_Path (Request c))
    \<longrightarrow> Proxy_Proxy ext e c = (Next c, []))
   \<and> (contains_global_template (req_URL_Path (Request c))
      \<or> contains_project_template (req_URL_Path (Request c))
      \<or> contains_dashboard_template (req_URL_Path (Request c))
    \<longrightarrow> fst (Proxy_Proxy ext e c) \<noteq> Next c')"
proof (intro conjI impI)
  assume "\<not> contains_global_template (req_URL_Path (Request c))
      \<and> \<not> contains_project_template (req_URL_Path (Request c))
      \<and> \<not> contains_dashboard_template (req_URL_Path (Request c))"
  then show "Proxy_Proxy ext e c = (Next c, [])"
    by (simp add: Proxy_Proxy_def global_match_iff project_match_iff dashboard_match_iff)
next
  assume "contains_global_template (req_URL_Path (Request c))
      \<or> contains_project_template (req_URL_Path (Request c))
      \<or> contains_dashboard_template (req_URL_Path (Request c))"
  then show "fst (Proxy_Proxy ext e c) \<noteq> Next c'"
    by (auto simp: Proxy_Proxy_def Let_def global_match_iff project_match_iff
          dashboard_match_iff proxyGlobalDatasource_not_Next
          proxyProjectDatasource_not_Next proxyDashboardDatasource_not_Next)
qed

text \<open>
  The theorem on a request to the API itself, which passes through, and on the path
  \<open>/api/v1/proxy/globaldatasources/absent\<close>, which does not.
\<close>

theorem path_without_template_passes_through_witness:
  "\<not> contains_global_template (req_URL_Path (Request (get_request api_path)))
   \<and> \<not> contains_project_template (req_URL_Path (Request (get_request api_path)))
   \<and> \<not> contains_dashboard_template (req_URL_Path (Request (get_request api_path)))
   \<and> Proxy_Proxy test_externals (test_proxy NilPanics (Found secret_s1) (Found secret_s1))
         (get_request api_path)
       = (Next (get_request api_path), [])
   \<and> contains_global_template (req_URL_Path (Request (get_request prefixed_global_path)))
   \<and> fst (Proxy_Proxy test_externals (test_proxy NilPanics KeyNotFound KeyNotFound)
            (get_request prefixed_global_path))
       \<noteq> Next (get_request prefixed_global_path)"
proof -
  have paths: "req_URL_Path (Request (get_request api_path)) = api_path"
    "req_URL_Path (Request (get_request prefixed_global_path)) = prefixed_global_path"
    by (simp_all add: get_request_def)
  have none: "\<not> contains_global_template api_path" "\<not> contains_project_template api_path"
    "\<not> contains_dashboard_template api_path"
    using api_path_global api_path_project api_path_dashboard
    by (simp_all add: global_match_iff project_match_iff dashboard_match_iff)
  have some: "contains_global_template prefixed_global_path"
    using prefixed_global_path_global by (simp add: global_match_iff)
  show ?thesis
    using
      path_without_template_passes_through
        [where c = "get_request api_path" and ext = test_externals
           and e = "test_proxy NilPanics (Found secret_s1) (Found secret_s1)"]
      path_without_template_passes_through
        [where c = "get_request prefixed_global_path" and ext = test_externals
           and e = "test_proxy NilPanics KeyNotFound KeyNotFound"
           and c' = "get_request prefixed_global_path"]
      none some
    by (simp add: paths)
qed


section \<open>Authentication\<close>

text \<open>
  Claim C3 says that a secret with both blocks leaves both authentications on the
  request. It does not: both steps write the header \<open>Authorization\<close> with
  \<open>Header.Set\<close>, which replaces. For the secret with the basic-auth block \<open>u\<close>/\<open>p\<close>
  and the authorization block \<open>Bearer tok\<close>, the prepared request carries the single
  value \<open>Bearer tok\<close>, and the value \<open>Basic dTpw\<close> of the basic-auth block is gone.
\<close>

theorem both_authentications_counterexample:
  "authorization_values
     (setupAuthentication (test_httpProxy [] (Some secret_both) ''/api/v1/query'')
        (Request (get_request query_path)))
     = [''Bearer tok'']
   \<and> ''Basic '' @ base64 (''u'' @ '':'' @ ''p'')
       \<notin> set (authorization_values
                (setupAuthentication (test_httpProxy [] (Some secret_both) ''/api/v1/query'')
                   (Request (get_request query_path))))"
  by (simp add: setupAuthentication_def SetBasicAuth_def Header_Set_def
        canonical_Authorization base64_u_p fixture_defs)

text \<open>
  Claim C3, amended. For every secret with a basic-auth block and an authorization block
  whose password and credential are read without error, \<open>setupAuthentication\<close> runs
  both steps in order, \<open>SetBasicAuth\<close> with the username and the password and then
  \<open>Header.Set\<close> of \<open>Authorization\<close> to \<open><scheme> <credential>\<close>; the second replaces
  what the first wrote, so the request it returns is the request it was given with the
  one \<open>Authorization\<close> value \<open><scheme> <credential>\<close>.
\<close>

theorem custom_authorization_replaces_basic:
  assumes "secret h = Some scrt"
    and "scrt_BasicAuth scrt = Some basicAuth"
    and "GetPassword basicAuth = Inr password"
    and "scrt_Authorization scrt = Some auth"
    and "GetCredentials auth = Inr credential"
  shows "setupAuthentication h req =
           Inr ((SetBasicAuth req (Username basicAuth) password)
                  \<lparr>req_Header :=
                     Header_Set (req_Header (SetBasicAuth req (Username basicAuth) password))
                       ''Authorization'' (Type auth @ '' '' @ credential)\<rparr>)
         \<and> setupAuthentication h req =
           Inr (req\<lparr>req_Header :=
                  (req_Header req)(''Authorization'' \<mapsto> [Type auth @ '' '' @ credential])\<rparr>)
         \<and> authorization_values (setupAuthentication h req) = [Type auth @ '' '' @ credential]"
  using assms
  by (simp add: setupAuthentication_def SetBasicAuth_def Header_Set_def
        canonical_Authorization authorization_values_def)

text \<open>
  The theorem on the secret with the basic-auth block \<open>u\<close>/\<open>p\<close>
  and the authorization block \<open>Bearer tok\<close>.
\<close>

theorem custom_authorization_replaces_basic_witness:
  "secret (test_httpProxy [] (Some secret_both) ''/api/v1/query'') = Some secret_both
   \<and> scrt_BasicAuth secret_both = Some basic_u_p
   \<and> GetPassword basic_u_p = Inr ''p''
   \<and> scrt_Authorization secret_both = Some bearer_tok
   \<and> GetCredentials bearer_tok = Inr ''tok''
   \<and> authorization_values
        (setupAuthentication (test_httpProxy [] (Some secret_both) ''/api/v1/query'')
           (Request (get_request query_path)))
       = [''Bearer tok'']"
proof -
  have h1: "secret (test_httpProxy [] (Some secret_both) ''/api/v1/query'') = Some secret_both"
    by (simp add: test_httpProxy_def)
  have h2: "scrt_BasicAuth secret_both = Some basic_u_p"
    and h4: "scrt_Authorization secret_both = Some bearer_tok"
    by (simp_all add: secret_both_def)
  have h3: "GetPassword basic_u_p = Inr ''p''"
    by (simp add: basic_u_p_def)
  have h5: "GetCredentials bearer_tok = Inr ''tok''"
    by (simp add: bearer_tok_def)
  have "authorization_values
        (setupAuthentication (test_httpProxy [] (Some secret_both) ''/api/v1/query'')
           (Request (get_request query_path)))
       = [Type bearer_tok @ '' '' @ ''tok'']"
    using custom_authorization_replaces_basic
      [OF h1 h2 h3 h4 h5, where req = "Request (get_request query_path)"]
    by blast
  then show ?thesis
    using h1 h2 h3 h4 h5 by (simp add: bearer_tok_def)
qed

section \<open>Which store a secret is read from\<close>

lemma newProxy_calls:
  "c \<in> set (snd (newProxy ext spec pth cr retrieveSecret)) \<Longrightarrow>
     c = Crypto_Decrypt \<or> (\<exists>name. c \<in> set (snd (retrieveSecret name)))"
proof (cases "ValidateAndExtract ext (Plugin_Spec spec)")
  case (Inl err)
  assume "c \<in> set (snd (newProxy ext spec pth cr retrieveSecret))"
  with Inl show ?thesis by (simp add: newProxy_def)
next
  case (Inr cfg')
  assume c: "c \<in> set (snd (newProxy ext spec pth cr retrieveSecret))"
  show ?thesis
  proof (cases cfg')
    case None
    with c Inr show ?thesis by (simp add: newProxy_def)
  next
    case (Some cfg)
    obtain scrt err calls where r: "retrieveSecret (cfg_Secret cfg) = ((scrt, err), calls)"
      by (cases "retrieveSecret (cfg_Secret cfg)") auto
    then have calls: "calls = snd (retrieveSecret (cfg_Secret cfg))" by simp
    from c Inr Some r have "c = Crypto_Decrypt \<or> c \<in> set calls"
      by (auto simp: newProxy_def split: if_splits decrypt_result.splits)
    with calls show ?thesis by blast
  qed
qed

lemma getGlobalSecret_calls: "snd (getGlobalSecret ext e dts name) = [GlobalSecret_Get name]"
  by (simp add: getGlobalSecret_def split: dao_result.splits)

lemma getProjectSecret_calls:
  "snd (getProjectSecret ext e project dts name) = [Secret_Get project name]"
  by (simp add: getProjectSecret_def split: dao_result.splits)

lemma getGlobalDatasource_calls: "snd (getGlobalDatasource ext e name) = [GlobalDTS_Get name]"
  by (simp add: getGlobalDatasource_def split: dao_result.splits)

lemma getProjectDatasource_calls:
  "snd (getProjectDatasource ext e project name) = [DTS_Get project name]"
  by (simp add: getProjectDatasource_def split: dao_result.splits)

lemma getDashboardDatasource_calls:
  "snd (getDashboardDatasource ext e project dashboard name) = [Dashboard_Get project dashboard]"
  by (simp add: getDashboardDatasource_def split: dao_result.splits option.splits)

lemma proxyGlobalDatasource_calls:
  assumes "c \<in> set (snd (proxyGlobalDatasource ext e ctx))"
  shows "(\<exists>name. c = GlobalDTS_Get name) \<or> (\<exists>name. c = GlobalSecret_Get name)
         \<or> c = Crypto_Decrypt"
proof (cases "extractGlobalDatasourceAndPath (req_URL_Path (Request ctx))")
  case (Inl err)
  with assms show ?thesis by (simp add: proxyGlobalDatasource_def)
next
  case (Inr r)
  obtain dts pth where r: "r = (dts, pth)" by (cases r)
  obtain res calls where g: "getGlobalDatasource ext e dts = (res, calls)"
    by (cases "getGlobalDatasource ext e dts")
  with getGlobalDatasource_calls [of ext e dts] have calls: "calls = [GlobalDTS_Get dts]"
    by simp
  show ?thesis
  proof (cases res)
    case (Inl err)
    with assms Inr r g calls show ?thesis by (simp add: proxyGlobalDatasource_def)
  next
    case (Inr spec)
    with assms \<open>extractGlobalDatasourceAndPath (req_URL_Path (Request ctx)) = Inr r\<close> r g calls
    have "c = GlobalDTS_Get dts
        \<or> c \<in> set (snd (newProxy ext spec pth (Crypto e) (getGlobalSecret ext e dts)))"
      by (auto simp: proxyGlobalDatasource_def split: prod.splits)
    then show ?thesis
      using newProxy_calls [of c ext spec pth "Crypto e" "getGlobalSecret ext e dts"]
      by (auto simp: getGlobalSecret_calls)
  qed
qed

lemma proxyProjectDatasource_calls:
  assumes "c \<in> set (snd (proxyProjectDatasource ext e ctx))"
    and "extractProjectDatasourceAndPath (req_URL_Path (Request ctx)) = Inr (project, dts, pth)"
  shows "c = DTS_Get project dts \<or> (\<exists>name. c = Secret_Get project name) \<or> c = Crypto_Decrypt"
proof -
  obtain res calls where g: "getProjectDatasource ext e project dts = (res, calls)"
    by (cases "getProjectDatasource ext e project dts")
  with getProjectDatasource_calls [of ext e project dts]
  have calls: "calls = [DTS_Get project dts]" by simp
  show ?thesis
  proof (cases res)
    case (Inl err)
    with assms g calls show ?thesis by (simp add: proxyProjectDatasource_def)
  next
    case (Inr spec)
    with assms g calls
    have "c = DTS_Get project dts
        \<or> c \<in> set (snd (newProxy ext spec pth (Crypto e) (getProjectSecret ext e project dts)))"
      by (auto simp: proxyProjectDatasource_def split: prod.splits)
    then show ?thesis
      using newProxy_calls [of c ext spec pth "Crypto e" "getProjectSecret ext e project dts"]
      by (auto simp: getProjectSecret_calls)
  qed
qed

lemma proxyDashboardDatasource_calls:
  assumes "c \<in> set (snd (proxyDashboardDatasource ext e ctx))"
    and "extractProjectDashboardDatasourceAndPath (req_URL_Path (Request ctx))
           = Inr (project, dashboard, dts, pth)"
  shows "c = Dashboard_Get project dashboard \<or> (\<exists>name. c = Secret_Get project name)
         \<or> c = Crypto_Decrypt"
proof -
  obtain res calls where g: "getDashboardDatasource ext e project dashboard dts = (res, calls)"
    by (cases "getDashboardDatasource ext e project dashboard dts")
  with getDashboardDatasource_calls [of ext e project dashboard dts]
  have calls: "calls = [Dashboard_Get project dashboard]" by simp
  show ?thesis
  proof (cases res)
    case None
    with assms g calls show ?thesis by (simp add: proxyDashboardDatasource_def)
  next
    case (Some r)
    show ?thesis
    proof (cases r)
      case (Inl err)
      with assms g calls Some show ?thesis by (simp add: proxyDashboardDatasource_def)
    next
      case (Inr spec)
      with assms g calls Some
      have "c = Dashboard_Get project dashboard
          \<or> c \<in> set (snd (newProxy ext spec pth (Crypto e) (getProjectSecret ext e project dts)))"
        by (auto simp: proxyDashboardDatasource_def split: prod.splits)
      then show ?thesis
        using newProxy_calls [of c ext spec pth "Crypto e" "getProjectSecret ext e project dts"]
        by (auto simp: getProjectSecret_calls)
    qed
  qed
qed

lemma project_no_global_secret:
  "GlobalSecret_Get n \<notin> set (snd (proxyProjectDatasource ext e ctx))"
proof (cases "extractProjectDatasourceAndPath (req_URL_Path (Request ctx))")
  case (Inl err)
  then show ?thesis by (simp add: proxyProjectDatasource_def)
next
  case (Inr r)
  obtain project dts pth where "r = (project, dts, pth)" by (cases r)
  with Inr show ?thesis
    using proxyProjectDatasource_calls [of "GlobalSecret_Get n" ext e ctx project dts pth]
    by auto
qed

lemma dashboard_no_global_secret:
  "GlobalSecret_Get n \<notin> set (snd (proxyDashboardDatasource ext e ctx))"
proof (cases "extractProjectDashboardDatasourceAndPath (req_URL_Path (Request ctx))")
  case (Inl err)
  then show ?thesis by (simp add: proxyDashboardDatasource_def)
next
  case (Inr r)
  obtain project dashboard dts pth where "r = (project, dashboard, dts, pth)" by (cases r)
  with Inr show ?thesis
    using proxyDashboardDatasource_calls
      [of "GlobalSecret_Get n" ext e ctx project dashboard dts pth]
    by auto
qed

lemma global_no_project_secret:
  "Secret_Get p n \<notin> set (snd (proxyGlobalDatasource ext e ctx))"
  using proxyGlobalDatasource_calls [of "Secret_Get p n" ext e ctx] by auto

text \<open>
  Claim C8. The handler of a global datasource never calls the project secret store;
  the handlers of a project datasource and of a dashboard datasource never call the
  global secret store, and every call they make to the project secret store is keyed by
  the project of the request path. So for the middleware as a whole: a request that the
  global matcher matches reads no project secret, and any other request reads no global
  secret.
\<close>

theorem secret_lookup_is_scope_specific:
  "Secret_Get p n \<notin> set (snd (proxyGlobalDatasource ext e ctx))
   \<and> GlobalSecret_Get n \<notin> set (snd (proxyProjectDatasource ext e ctx))
   \<and> GlobalSecret_Get n \<notin> set (snd (proxyDashboardDatasource ext e ctx))
   \<and> (extractProjectDatasourceAndPath (req_URL_Path (Request ctx)) = Inr (project, dts, pth)
        \<and> Secret_Get p n \<in> set (snd (proxyProjectDatasource ext e ctx))
      \<longrightarrow> p = project)
   \<and> (extractProjectDashboardDatasourceAndPath (req_URL_Path (Request ctx))
          = Inr (project, dashboard, dts, pth)
        \<and> Secret_Get p n \<in> set (snd (proxyDashboardDatasource ext e ctx))
      \<longrightarrow> p = project)
   \<and> (MatchString globalProxyMatcher (req_URL_Path (Request ctx))
      \<longrightarrow> Secret_Get p n \<notin> set (snd (Proxy_Proxy ext e ctx)))
   \<and> (\<not> MatchString globalProxyMatcher (req_URL_Path (Request ctx))
      \<longrightarrow> GlobalSecret_Get n \<notin> set (snd (Proxy_Proxy ext e ctx)))"
proof (intro conjI impI)
  show "Secret_Get p n \<notin> set (snd (proxyGlobalDatasource ext e ctx))"
    by (rule global_no_project_secret)
  show "GlobalSecret_Get n \<notin> set (snd (proxyProjectDatasource ext e ctx))"
    by (rule project_no_global_secret)
  show "GlobalSecret_Get n \<notin> set (snd (proxyDashboardDatasource ext e ctx))"
    by (rule dashboard_no_global_secret)
next
  assume "extractProjectDatasourceAndPath (req_URL_Path (Request ctx)) = Inr (project, dts, pth)
      \<and> Secret_Get p n \<in> set (snd (proxyProjectDatasource ext e ctx))"
  then show "p = project"
    using proxyProjectDatasource_calls [of "Secret_Get p n" ext e ctx project dts pth] by auto
next
  assume "extractProjectDashboardDatasourceAndPath (req_URL_Path (Request ctx))
        = Inr (project, dashboard, dts, pth)
      \<and> Secret_Get p n \<in> set (snd (proxyDashboardDatasource ext e ctx))"
  then show "p = project"
    using proxyDashboardDatasource_calls
      [of "Secret_Get p n" ext e ctx project dashboard dts pth]
    by auto
next
  assume "MatchString globalProxyMatcher (req_URL_Path (Request ctx))"
  then show "Secret_Get p n \<notin> set (snd (Proxy_Proxy ext e ctx))"
    by (simp add: Proxy_Proxy_def Let_def global_no_project_secret)
next
  assume "\<not> MatchString globalProxyMatcher (req_URL_Path (Request ctx))"
  then show "GlobalSecret_Get n \<notin> set (snd (Proxy_Proxy ext e ctx))"
    by (simp add: Proxy_Proxy_def Let_def project_no_global_secret dashboard_no_global_secret)
qed


lemmas pipeline_defs =
  Proxy_Proxy_def proxyGlobalDatasource_def proxyProjectDatasource_def
  proxyDashboardDatasource_def getGlobalDatasource_def getProjectDatasource_def
  getDashboardDatasource_def getGlobalSecret_def getProjectSecret_def newProxy_def
  crypto_Decrypt_def serve_result_def

lemma query_path_global: "MatchString globalProxyMatcher query_path = False"
  by code_simp

lemma query_path_project: "MatchString projectProxyMatcher query_path = True"
  by code_simp

lemma query_path_extract:
  "extractProjectDatasourceAndPath query_path = Inr (''p1'', ''prom1'', ''/api/v1/query'')"
  by code_simp

lemma global_query_path_global: "MatchString globalProxyMatcher global_query_path = True"
  by code_simp

lemma global_query_path_extract:
  "extractGlobalDatasourceAndPath global_query_path = Inr (''gprom'', ''/api/v1/query'')"
  by code_simp

lemma dashboard_query_path_extract:
  "extractProjectDashboardDatasourceAndPath dashboard_query_path
     = Inr (''p1'', ''d1'', ''ds-auth'', ''/api/v1/query'')"
  by code_simp

lemmas path_facts =
  query_path_global query_path_project query_path_extract global_query_path_global
  global_query_path_extract dashboard_query_path_extract

lemma project_trace:
  "proxyProjectDatasource test_externals (test_proxy NilPanics (Found secret_s1) (Found secret_s1))
       (get_request query_path)
     = (Panicked, [DTS_Get ''p1'' ''prom1'', Secret_Get ''p1'' ''s1''])"
  by (simp add: pipeline_defs fixture_defs path_facts)

lemma dashboard_trace:
  "proxyDashboardDatasource test_externals
       (test_proxy NilPanics (Found secret_s1) (Found secret_s1))
       (get_request dashboard_query_path)
     = (Panicked, [Dashboard_Get ''p1'' ''d1'', Secret_Get ''p1'' ''s1''])"
  by (simp add: pipeline_defs fixture_defs path_facts)

lemma global_trace:
  "Proxy_Proxy test_externals (test_proxy NilPanics (Found secret_s1) (Found secret_s1))
       (get_request global_query_path)
     = (Panicked, [GlobalDTS_Get ''gprom'', GlobalSecret_Get ''s1''])"
  by (simp add: pipeline_defs fixture_defs path_facts)

text \<open>
  The theorem on a project request, a dashboard request and a global request, each for a
  datasource that names the secret \<open>s1\<close>.
\<close>

theorem secret_lookup_is_scope_specific_witness:
  "extractProjectDatasourceAndPath (req_URL_Path (Request (get_request query_path)))
     = Inr (''p1'', ''prom1'', ''/api/v1/query'')
   \<and> Secret_Get ''p1'' ''s1''
       \<in> set (snd (proxyProjectDatasource test_externals
                     (test_proxy NilPanics (Found secret_s1) (Found secret_s1))
                     (get_request query_path)))
   \<and> GlobalSecret_Get ''s1''
       \<notin> set (snd (proxyProjectDatasource test_externals
                     (test_proxy NilPanics (Found secret_s1) (Found secret_s1))
                     (get_request query_path)))
   \<and> extractProjectDashboardDatasourceAndPath
         (req_URL_Path (Request (get_request dashboard_query_path)))
       = Inr (''p1'', ''d1'', ''ds-auth'', ''/api/v1/query'')
   \<and> Secret_Get ''p1'' ''s1''
       \<in> set (snd (proxyDashboardDatasource test_externals
                     (test_proxy NilPanics (Found secret_s1) (Found secret_s1))
                     (get_request dashboard_query_path)))
   \<and> GlobalSecret_Get ''s1''
       \<notin> set (snd (proxyDashboardDatasource test_externals
                     (test_proxy NilPanics (Found secret_s1) (Found secret_s1))
                     (get_request dashboard_query_path)))
   \<and> MatchString globalProxyMatcher (req_URL_Path (Request (get_request global_query_path)))
   \<and> snd (Proxy_Proxy test_externals (test_proxy NilPanics (Found secret_s1) (Found secret_s1))
            (get_request global_query_path))
       = [GlobalDTS_Get ''gprom'', GlobalSecret_Get ''s1'']
   \<and> Secret_Get ''p1'' ''s1''
       \<notin> set (snd (Proxy_Proxy test_externals
                     (test_proxy NilPanics (Found secret_s1) (Found secret_s1))
                     (get_request global_query_path)))
   \<and> \<not> MatchString globalProxyMatcher (req_URL_Path (Request (get_request query_path)))
   \<and> GlobalSecret_Get ''s1''
       \<notin> set (snd (Proxy_Proxy test_externals
                     (test_proxy NilPanics (Found secret_s1) (Found secret_s1))
                     (get_request query_path)))"
proof -
  let ?e = "test_proxy NilPanics (Found secret_s1) (Found secret_s1)"
  have paths: "req_URL_Path (Request (get_request query_path)) = query_path"
    "req_URL_Path (Request (get_request dashboard_query_path)) = dashboard_query_path"
    "req_URL_Path (Request (get_request global_query_path)) = global_query_path"
    by (simp_all add: get_request_def)
  note project =
    secret_lookup_is_scope_specific
      [where ext = test_externals and e = ?e and ctx = "get_request query_path"
         and p = "''p1''" and n = "''s1''"]
  note dashboard =
    secret_lookup_is_scope_specific
      [where ext = test_externals and e = ?e and ctx = "get_request dashboard_query_path"
         and p = "''p1''" and n = "''s1''"]
  note global =
    secret_lookup_is_scope_specific
      [where ext = test_externals and e = ?e and ctx = "get_request global_query_path"
         and p = "''p1''" and n = "''s1''"]
  have 1: "GlobalSecret_Get ''s1''
       \<notin> set (snd (proxyProjectDatasource test_externals ?e (get_request query_path)))"
    using project by blast
  have 2: "GlobalSecret_Get ''s1''
       \<notin> set (snd (proxyDashboardDatasource test_externals ?e
                     (get_request dashboard_query_path)))"
    using dashboard by blast
  have 3: "Secret_Get ''p1'' ''s1''
       \<notin> set (snd (Proxy_Proxy test_externals ?e (get_request global_query_path)))"
    using global by (simp add: paths path_facts)
  have 4: "GlobalSecret_Get ''s1''
       \<notin> set (snd (Proxy_Proxy test_externals ?e (get_request query_path)))"
    using project by (simp add: paths path_facts)
  show ?thesis
    using 1 2 3 4
    by (simp add: paths path_facts project_trace dashboard_trace global_trace)
qed

section \<open>Classification of template paths\<close>

lemma global_match:
  assumes "is_name n" "is_rest r" "newline \<notin> set r"
  shows "globalProxyMatcher [] (global_path n r) = Some [global_path n r, n, r]"
  unfolding globalProxyMatcher_def global_path_def
  by (simp only: strip_literal_append option.case prod.case
        name_group_rest [OF assms(1,2)] rest_group_id [OF assms(2,3)])

lemma project_match:
  assumes "is_name p" "is_name n" "is_rest r" "newline \<notin> set r"
  shows "projectProxyMatcher [] (project_path p n r) = Some [project_path p n r, p, n, r]"
  unfolding projectProxyMatcher_def project_path_def
  by (simp only: strip_literal_append option.case prod.case
        name_group_rest [OF assms(1) is_rest_datasources]
        name_group_rest [OF assms(2,3)] rest_group_id [OF assms(3,4)])

lemma dashboard_match:
  assumes "is_name p" "is_name d" "is_name n" "is_rest r" "newline \<notin> set r"
  shows "dashboardProxyMatcher [] (dashboard_path p d n r)
           = Some [dashboard_path p d n r, p, d, n, r]"
  unfolding dashboardProxyMatcher_def dashboard_path_def
  by (simp only: strip_literal_append option.case prod.case
        name_group_rest [OF assms(1) is_rest_dashboards]
        name_group_rest [OF assms(2) is_rest_datasources]
        name_group_rest [OF assms(3,4)] rest_group_id [OF assms(4,5)])

lemma global_extract:
  assumes "is_name n" "is_rest r" "newline \<notin> set r"
  shows "extractGlobalDatasourceAndPath (global_path n r)
           = Inr (n, if r = [] then ''/'' else r)"
proof -
  let ?s = "global_path n r"
  have ne: "?s \<noteq> []" by (simp add: global_path_def)
  have none: "globalProxyMatcher ?s [] = None"
    by (simp add: globalProxyMatcher_def strip_literal_def)
  have "find_all globalProxyMatcher False [] ?s = [[?s, n, r]]"
    by (rule find_all_single [where re = globalProxyMatcher and s = ?s])
       (simp_all add: global_match [OF assms] match_len_def none ne)
  then show ?thesis
    by (simp add: extractGlobalDatasourceAndPath_def FindAllStringSubmatch_def)
qed

lemma project_extract:
  assumes "is_name p" "is_name n" "is_rest r" "newline \<notin> set r"
  shows "extractProjectDatasourceAndPath (project_path p n r)
           = Inr (p, n, if r = [] then ''/'' else r)"
proof -
  let ?s = "project_path p n r"
  have ne: "?s \<noteq> []" by (simp add: project_path_def)
  have none: "projectProxyMatcher ?s [] = None"
    by (simp add: projectProxyMatcher_def strip_literal_def)
  have "find_all projectProxyMatcher False [] ?s = [[?s, p, n, r]]"
    by (rule find_all_single [where re = projectProxyMatcher and s = ?s])
       (simp_all add: project_match [OF assms] match_len_def none ne)
  then show ?thesis
    by (simp add: extractProjectDatasourceAndPath_def FindAllStringSubmatch_def)
qed

lemma dashboard_extract:
  assumes "is_name p" "is_name d" "is_name n" "is_rest r" "newline \<notin> set r"
  shows "extractProjectDashboardDatasourceAndPath (dashboard_path p d n r)
           = Inr (p, d, n, if r = [] then ''/'' else r)"
proof -
  let ?s = "dashboard_path p d n r"
  have ne: "?s \<noteq> []" by (simp add: dashboard_path_def)
  have none: "dashboardProxyMatcher ?s [] = None"
    by (simp add: dashboardProxyMatcher_def strip_literal_def)
  have "find_all dashboardProxyMatcher False [] ?s = [[?s, p, d, n, r]]"
    by (rule find_all_single [where re = dashboardProxyMatcher and s = ?s])
       (simp_all add: dashboard_match [OF assms] match_len_def none ne)
  then show ?thesis
    by (simp add: extractProjectDashboardDatasourceAndPath_def FindAllStringSubmatch_def)
qed

lemma global_forwarded_nonempty:
  "extractGlobalDatasourceAndPath p = Inr (n, f) \<Longrightarrow> f \<noteq> []"
  by (auto simp: extractGlobalDatasourceAndPath_def Let_def split: if_splits)

lemma project_forwarded_nonempty:
  "extractProjectDatasourceAndPath p = Inr (pr, n, f) \<Longrightarrow> f \<noteq> []"
  by (auto simp: extractProjectDatasourceAndPath_def Let_def split: if_splits)

lemma dashboard_forwarded_nonempty:
  "extractProjectDashboardDatasourceAndPath p = Inr (pr, d, n, f) \<Longrightarrow> f \<noteq> []"
  by (auto simp: extractProjectDashboardDatasourceAndPath_def Let_def split: if_splits)

lemma template_path_matches:
  assumes "is_name name" and "is_name project" and "is_name dashboard"
  shows "MatchString globalProxyMatcher (global_path name rest)"
    and "MatchString projectProxyMatcher (project_path project name rest)"
    and "MatchString dashboardProxyMatcher (dashboard_path project dashboard name rest)"
proof -
  have "global_path name rest = [] @ global_path name rest" by simp
  with assms show "MatchString globalProxyMatcher (global_path name rest)"
    unfolding global_match_iff contains_global_template_def by blast
  have "project_path project name rest = [] @ project_path project name rest" by simp
  with assms show "MatchString projectProxyMatcher (project_path project name rest)"
    unfolding project_match_iff contains_project_template_def by blast
  have "dashboard_path project dashboard name rest
      = [] @ dashboard_path project dashboard name rest"
    by simp
  with assms
  show "MatchString dashboardProxyMatcher (dashboard_path project dashboard name rest)"
    unfolding dashboard_match_iff contains_dashboard_template_def by blast
qed

lemma embedded_global_path_global: "MatchString globalProxyMatcher embedded_global_path = True"
  by code_simp

lemma embedded_global_path_extract:
  "extractGlobalDatasourceAndPath embedded_global_path = Inr (''gprom'', ''/x'')"
  by code_simp

lemma embedded_global_path_calls:
  "snd (Proxy_Proxy test_externals (test_proxy NilPanics (Found secret_s1) (Found secret_s1))
          (get_request embedded_global_path))
     = [GlobalDTS_Get ''gprom'', GlobalSecret_Get ''s1'']"
  by (simp add: pipeline_defs fixture_defs embedded_global_path_global
        embedded_global_path_extract)

text \<open>
  Claim C6 says that every path of a template is classified by its own identifiers, with
  its \<open>{rest}\<close> as the forwarded path. Two paths show that it is not so. A \<open>{rest}\<close>
  with a line feed is cut there, since \<open>.\<close> does not match it: the path
  \<open>/proxy/globaldatasources/a/b\<close>, a line feed, \<open>c\<close> is of the global template with
  the name \<open>a\<close>, and its forwarded path is \<open>/b\<close>. And the middleware tries the global
  matcher first and nowhere anchors it: the path of the project template with the project
  \<open>p1\<close>, the name \<open>prom1\<close> and the rest \<open>/proxy/globaldatasources/gprom/x\<close> is
  handled as the global datasource \<open>gprom\<close> with the forwarded path \<open>/x\<close>; the
  global stores are read and the stores of \<open>p1\<close> are not.
\<close>

theorem template_path_counterexample:
  "is_name ''a'' \<and> is_rest (''/b'' @ [newline] @ ''c'')
   \<and> extractGlobalDatasourceAndPath (global_path ''a'' (''/b'' @ [newline] @ ''c''))
       = Inr (''a'', ''/b'')
   \<and> ''/b'' \<noteq> ''/b'' @ [newline] @ ''c''
   \<and> is_name ''p1'' \<and> is_name ''prom1'' \<and> is_rest ''/proxy/globaldatasources/gprom/x''
   \<and> newline \<notin> set ''/proxy/globaldatasources/gprom/x''
   \<and> extractGlobalDatasourceAndPath
         (project_path ''p1'' ''prom1'' ''/proxy/globaldatasources/gprom/x'')
       = Inr (''gprom'', ''/x'')
   \<and> snd (Proxy_Proxy test_externals (test_proxy NilPanics (Found secret_s1) (Found secret_s1))
            (get_request (project_path ''p1'' ''prom1'' ''/proxy/globaldatasources/gprom/x'')))
       = [GlobalDTS_Get ''gprom'', GlobalSecret_Get ''s1'']"
proof -
  have "is_name ''a'' \<and> is_rest (''/b'' @ [newline] @ ''c'')
      \<and> extractGlobalDatasourceAndPath (global_path ''a'' (''/b'' @ [newline] @ ''c''))
          = Inr (''a'', ''/b'')
      \<and> ''/b'' \<noteq> ''/b'' @ [newline] @ ''c''
      \<and> is_name ''p1'' \<and> is_name ''prom1'' \<and> is_rest ''/proxy/globaldatasources/gprom/x''
      \<and> newline \<notin> set ''/proxy/globaldatasources/gprom/x''"
    by code_simp
  then show ?thesis
    using embedded_global_path_extract embedded_global_path_calls
    by (simp only: embedded_global_path_def simp_thms)
qed

text \<open>
  Claim C6, amended. Take a path of one of the three templates whose \<open>{rest}\<close> holds no
  line feed. A path of the global template is handled as a global datasource; a path of
  the project template that contains no global template is handled as a project
  datasource; a path of the dashboard template that contains no global and no project
  template is handled as a dashboard datasource. In each case the classification returns
  exactly the identifiers of the path and its \<open>{rest}\<close> as the forwarded path, or \<open>/\<close>
  when \<open>{rest}\<close> is empty. And whatever the path, the forwarded path of a
  classification that succeeds is never empty.
\<close>

theorem classification_of_template_paths:
  assumes "is_name name" and "is_name project" and "is_name dashboard"
    and "is_rest rest" and "newline \<notin> set rest"
  shows "(req_URL_Path (Request c) = global_path name rest \<longrightarrow>
            Proxy_Proxy ext e c = proxyGlobalDatasource ext e c
            \<and> extractGlobalDatasourceAndPath (req_URL_Path (Request c))
                = Inr (name, if rest = [] then ''/'' else rest))
         \<and> (req_URL_Path (Request c) = project_path project name rest
              \<and> \<not> contains_global_template (project_path project name rest) \<longrightarrow>
            Proxy_Proxy ext e c = proxyProjectDatasource ext e c
            \<and> extractProjectDatasourceAndPath (req_URL_Path (Request c))
                = Inr (project, name, if rest = [] then ''/'' else rest))
         \<and> (req_URL_Path (Request c) = dashboard_path project dashboard name rest
              \<and> \<not> contains_global_template (dashboard_path project dashboard name rest)
              \<and> \<not> contains_project_template (dashboard_path project dashboard name rest)
            \<longrightarrow>
            Proxy_Proxy ext e c = proxyDashboardDatasource ext e c
            \<and> extractProjectDashboardDatasourceAndPath (req_URL_Path (Request c))
                = Inr (project, dashboard, name, if rest = [] then ''/'' else rest))
         \<and> (\<forall>p n f. extractGlobalDatasourceAndPath p = Inr (n, f) \<longrightarrow> f \<noteq> [])
         \<and> (\<forall>p pr n f. extractProjectDatasourceAndPath p = Inr (pr, n, f) \<longrightarrow> f \<noteq> [])
         \<and> (\<forall>p pr d n f.
               extractProjectDashboardDatasourceAndPath p = Inr (pr, d, n, f) \<longrightarrow> f \<noteq> [])"
proof (intro conjI impI allI)
  assume p: "req_URL_Path (Request c) = global_path name rest"
  with template_path_matches(1) [OF assms(1-3)]
  show "Proxy_Proxy ext e c = proxyGlobalDatasource ext e c"
    by (simp add: Proxy_Proxy_def Let_def)
  from p global_extract [OF assms(1,4,5)]
  show "extractGlobalDatasourceAndPath (req_URL_Path (Request c))
      = Inr (name, if rest = [] then ''/'' else rest)"
    by simp
next
  assume "req_URL_Path (Request c) = project_path project name rest
      \<and> \<not> contains_global_template (project_path project name rest)"
  then have p: "req_URL_Path (Request c) = project_path project name rest"
    and g: "\<not> MatchString globalProxyMatcher (project_path project name rest)"
    by (simp_all add: global_match_iff)
  with template_path_matches(2) [OF assms(1-3)]
  show "Proxy_Proxy ext e c = proxyProjectDatasource ext e c"
    by (simp add: Proxy_Proxy_def Let_def)
  from p project_extract [OF assms(2,1,4,5)]
  show "extractProjectDatasourceAndPath (req_URL_Path (Request c))
      = Inr (project, name, if rest = [] then ''/'' else rest)"
    by simp
next
  assume "req_URL_Path (Request c) = dashboard_path project dashboard name rest
      \<and> \<not> contains_global_template (dashboard_path project dashboard name rest)
      \<and> \<not> contains_project_template (dashboard_path project dashboard name rest)"
  then have p: "req_URL_Path (Request c) = dashboard_path project dashboard name rest"
    and g: "\<not> MatchString globalProxyMatcher (dashboard_path project dashboard name rest)"
    and q: "\<not> MatchString projectProxyMatcher (dashboard_path project dashboard name rest)"
    by (simp_all add: global_match_iff project_match_iff)
  with template_path_matches(3) [OF assms(1-3)]
  show "Proxy_Proxy ext e c = proxyDashboardDatasource ext e c"
    by (simp add: Proxy_Proxy_def Let_def)
  from p dashboard_extract [OF assms(2,3,1,4,5)]
  show "extractProjectDashboardDatasourceAndPath (req_URL_Path (Request c))
      = Inr (project, dashboard, name, if rest = [] then ''/'' else rest)"
    by simp
next
  fix p n f
  assume "extractGlobalDatasourceAndPath p = Inr (n, f)"
  then show "f \<noteq> []" by (rule global_forwarded_nonempty)
next
  fix p pr n f
  assume "extractProjectDatasourceAndPath p = Inr (pr, n, f)"
  then show "f \<noteq> []" by (rule project_forwarded_nonempty)
next
  fix p pr d n f
  assume "extractProjectDashboardDatasourceAndPath p = Inr (pr, d, n, f)"
  then show "f \<noteq> []" by (rule dashboard_forwarded_nonempty)
qed

text \<open>
  The theorem on the names \<open>prom1\<close>, \<open>p1\<close> and \<open>d1\<close> with the rest \<open>/api/v1/query\<close>,
  one request for each template, and on the global template with no rest.
\<close>

theorem classification_of_template_paths_witness:
  "is_name ''prom1'' \<and> is_name ''p1'' \<and> is_name ''d1''
   \<and> is_rest ''/api/v1/query'' \<and> newline \<notin> set ''/api/v1/query''
   \<and> \<not> contains_global_template (project_path ''p1'' ''prom1'' ''/api/v1/query'')
   \<and> \<not> contains_global_template (dashboard_path ''p1'' ''d1'' ''prom1'' ''/api/v1/query'')
   \<and> \<not> contains_project_template (dashboard_path ''p1'' ''d1'' ''prom1'' ''/api/v1/query'')
   \<and> Proxy_Proxy test_externals (test_proxy NilPanics KeyNotFound KeyNotFound)
         (get_request (global_path ''prom1'' ''/api/v1/query''))
       = proxyGlobalDatasource test_externals (test_proxy NilPanics KeyNotFound KeyNotFound)
           (get_request (global_path ''prom1'' ''/api/v1/query''))
   \<and> extractGlobalDatasourceAndPath (global_path ''prom1'' ''/api/v1/query'')
       = Inr (''prom1'', ''/api/v1/query'')
   \<and> Proxy_Proxy test_externals (test_proxy NilPanics KeyNotFound KeyNotFound)
         (get_request (project_path ''p1'' ''prom1'' ''/api/v1/query''))
       = proxyProjectDatasource test_externals (test_proxy NilPanics KeyNotFound KeyNotFound)
           (get_request (project_path ''p1'' ''prom1'' ''/api/v1/query''))
   \<and> extractProjectDatasourceAndPath (project_path ''p1'' ''prom1'' ''/api/v1/query'')
       = Inr (''p1'', ''prom1'', ''/api/v1/query'')
   \<and> Proxy_Proxy test_externals (test_proxy NilPanics KeyNotFound KeyNotFound)
         (get_request (dashboard_path ''p1'' ''d1'' ''prom1'' ''/api/v1/query''))
       = proxyDashboardDatasource test_externals (test_proxy NilPanics KeyNotFound KeyNotFound)
           (get_request (dashboard_path ''p1'' ''d1'' ''prom1'' ''/api/v1/query''))
   \<and> extractProjectDashboardDatasourceAndPath
         (dashboard_path ''p1'' ''d1'' ''prom1'' ''/api/v1/query'')
       = Inr (''p1'', ''d1'', ''prom1'', ''/api/v1/query'')
   \<and> is_rest [] \<and> newline \<notin> set []
   \<and> extractGlobalDatasourceAndPath (global_path ''prom1'' []) = Inr (''prom1'', ''/'')"
proof -
  let ?e = "test_proxy NilPanics KeyNotFound KeyNotFound"
  have n: "is_name ''prom1''" and p: "is_name ''p1''" and d: "is_name ''d1''"
    by code_simp+
  have r: "is_rest ''/api/v1/query''" and l: "newline \<notin> set ''/api/v1/query''"
    by code_simp+
  have r0: "is_rest []" and l0: "newline \<notin> set []"
    by (simp_all add: is_rest_def)
  have "MatchString globalProxyMatcher (project_path ''p1'' ''prom1'' ''/api/v1/query'') = False"
    by code_simp
  then have g1: "\<not> contains_global_template (project_path ''p1'' ''prom1'' ''/api/v1/query'')"
    by (simp add: global_match_iff)
  have "MatchString globalProxyMatcher (dashboard_path ''p1'' ''d1'' ''prom1'' ''/api/v1/query'')
      = False"
    by code_simp
  then have g2:
    "\<not> contains_global_template (dashboard_path ''p1'' ''d1'' ''prom1'' ''/api/v1/query'')"
    by (simp add: global_match_iff)
  have "MatchString projectProxyMatcher (dashboard_path ''p1'' ''d1'' ''prom1'' ''/api/v1/query'')
      = False"
    by code_simp
  then have g3:
    "\<not> contains_project_template (dashboard_path ''p1'' ''d1'' ''prom1'' ''/api/v1/query'')"
    by (simp add: project_match_iff)
  have path: "\<And>s. req_URL_Path (Request (get_request s)) = s"
    by (simp add: get_request_def)
  note t = classification_of_template_paths [OF n p d r l, where ext = test_externals and e = ?e]
  have a: "Proxy_Proxy test_externals ?e (get_request (global_path ''prom1'' ''/api/v1/query''))
        = proxyGlobalDatasource test_externals ?e
            (get_request (global_path ''prom1'' ''/api/v1/query''))
      \<and> extractGlobalDatasourceAndPath (global_path ''prom1'' ''/api/v1/query'')
        = Inr (''prom1'', ''/api/v1/query'')"
    using t [where c = "get_request (global_path ''prom1'' ''/api/v1/query'')"]
    by (simp only: path) simp
  have b: "Proxy_Proxy test_externals ?e
          (get_request (project_path ''p1'' ''prom1'' ''/api/v1/query''))
        = proxyProjectDatasource test_externals ?e
            (get_request (project_path ''p1'' ''prom1'' ''/api/v1/query''))
      \<and> extractProjectDatasourceAndPath (project_path ''p1'' ''prom1'' ''/api/v1/query'')
        = Inr (''p1'', ''prom1'', ''/api/v1/query'')"
    using t [where c = "get_request (project_path ''p1'' ''prom1'' ''/api/v1/query'')"] g1
    by (simp only: path) simp
  have c: "Proxy_Proxy test_externals ?e
          (get_request (dashboard_path ''p1'' ''d1'' ''prom1'' ''/api/v1/query''))
        = proxyDashboardDatasource test_externals ?e
            (get_request (dashboard_path ''p1'' ''d1'' ''prom1'' ''/api/v1/query''))
      \<and> extractProjectDashboardDatasourceAndPath
          (dashboard_path ''p1'' ''d1'' ''prom1'' ''/api/v1/query'')
        = Inr (''p1'', ''d1'', ''prom1'', ''/api/v1/query'')"
    using t [where c = "get_request (dashboard_path ''p1'' ''d1'' ''prom1'' ''/api/v1/query'')"]
      g2 g3
    by (simp only: path) simp
  have z: "extractGlobalDatasourceAndPath (global_path ''prom1'' []) = Inr (''prom1'', ''/'')"
    using classification_of_template_paths
      [OF n p d r0 l0, where c = "get_request (global_path ''prom1'' [])"]
    by (simp only: path) simp
  show ?thesis
    using n p d r l r0 l0 g1 g2 g3 a b c z by (intro conjI) blast+
qed

section \<open>A datasource that names a secret\<close>

text \<open>
  \<open>newProxy\<close> on a config that names a secret, for every input: a secret that was
  retrieved gives the nil proxy with the nil error; a retrieval that failed gives what
  \<open>Decrypt\<close> does with the nil pointer, and never the error of the retrieval.
\<close>

lemma newProxy_retrieved_secret:
  assumes "ValidateAndExtract ext (Plugin_Spec spec) = Inr (Some cfg)"
    and "cfg_Secret cfg \<noteq> []"
    and "fst (retrieveSecret (cfg_Secret cfg)) = (Some scrt, None)"
  shows "fst (newProxy ext spec pth cr retrieveSecret) = Returned None None"
  using assms by (auto simp: newProxy_def split: prod.splits)

lemma newProxy_failed_retrieval:
  assumes "ValidateAndExtract ext (Plugin_Spec spec) = Inr (Some cfg)"
    and "cfg_Secret cfg \<noteq> []"
    and "fst (retrieveSecret (cfg_Secret cfg)) = (None, Some err)"
  shows "fst (newProxy ext spec pth cr retrieveSecret) =
           (case DecryptNil cr of
              NilPanics \<Rightarrow> NewProxyPanic
            | NilError decryptErr \<Rightarrow>
                Returned None (Some (HTTPError 500 ''Internal Server Error''))
            | NilAccepted \<Rightarrow> Returned (Some \<lparr>config = cfg, secret = None, path = pth\<rparr>) None)"
  using assms
  by (auto simp: newProxy_def crypto_Decrypt_def internal_server_error_status_text_def
        StatusInternalServerError_def split: prod.splits nil_behaviour.splits)

text \<open>
  \<open>serve\<close> itself, given the proxy that \<open>newProxy\<close> would have built with the secret
  \<open>s1\<close>, sends the upstream host, the forwarded path and the basic authentication.
\<close>

lemma serve_with_basic_auth:
  "forwarded_headers
     (serve test_externals
        \<lparr>config = http_config [] ''s1'', secret = Some secret_s1, path = ''/api/v1/query''\<rparr>
        (get_request query_path))
     = Some (''prometheus.example:9090'', ''/api/v1/query'', [''Basic dTpw''])"
  by (simp add: serve_defs fixture_defs canonical_keys base64_u_p)

text \<open>
  Claim C2, on the code. The request \<open>GET /proxy/projects/p1/datasources/prom1/api/v1/query\<close>,
  with the datasource \<open>p1/prom1\<close> naming the secret \<open>s1\<close>, the secret \<open>s1\<close> (basic-auth
  \<open>u\<close>/\<open>p\<close>) in the store of \<open>p1\<close>, a \<open>Decrypt\<close> that succeeds and an upstream that
  answers 200: the datasource and the secret are read, and then the call panics. Nothing
  is sent upstream and no response is returned.
\<close>

theorem retrieved_secret_panics:
  "Proxy_Proxy test_externals (test_proxy NilPanics (Found secret_s1) KeyNotFound)
       (get_request query_path)
     = (Panicked, [DTS_Get ''p1'' ''prom1'', Secret_Get ''p1'' ''s1''])"
  by (simp add: pipeline_defs fixture_defs path_facts)

text \<open>
  Claim C1, on the code. The same request when the store of \<open>p1\<close> has no secret \<open>s1\<close>:
  the not-found of the store goes to \<open>Decrypt\<close> as a nil pointer. When \<open>Decrypt\<close> panics
  on it the call panics; when it returns an error the call returns 500; when it accepts
  it the request is forwarded upstream without any \<open>Authorization\<close> header. In no case
  is the answer 404.
\<close>

theorem missing_secret_is_not_404:
  "Proxy_Proxy test_externals (test_proxy NilPanics KeyNotFound KeyNotFound)
       (get_request query_path)
     = (Panicked, [DTS_Get ''p1'' ''prom1'', Secret_Get ''p1'' ''s1'', Crypto_Decrypt])
   \<and> Proxy_Proxy test_externals (test_proxy (NilError ''nil secret'') KeyNotFound KeyNotFound)
         (get_request query_path)
       = (Failed (HTTPError 500 ''Internal Server Error''),
          [DTS_Get ''p1'' ''prom1'', Secret_Get ''p1'' ''s1'', Crypto_Decrypt])
   \<and> Proxy_Proxy test_externals (test_proxy NilAccepted KeyNotFound KeyNotFound)
         (get_request query_path)
       = (Forwarded (prepared_request ''/api/v1/query'') default_transport
            (Inr \<lparr>resp_Status = 200, resp_Body = ''{}''\<rparr>),
          [DTS_Get ''p1'' ''prom1'', Secret_Get ''p1'' ''s1'', Crypto_Decrypt])"
  by (simp add: pipeline_defs serve_defs fixture_defs status_defs path_facts canonical_keys)


section \<open>The TLS configuration\<close>

text \<open>
  The functions on a proxy they are handed. Without a secret the TLS configuration is
  exactly \<open>{MinVersion: TLS1.2}\<close>; with a secret it is what \<open>NewTLSConfig\<close> builds from
  the fields of the secret and the bounds TLS 1.2 and TLS 1.3. \<open>prepareTransport\<close> puts
  it into the transport or answers 502, and \<open>serve\<close> forwards with that transport or
  returns that 502.
\<close>

lemma prepareTLSConfig_cases:
  "(secret h = None \<longrightarrow>
      prepareTLSConfig ext h =
        Inr \<lparr>tls_RootCAs = None, tls_Certificates = [], tls_ServerName = [],
             tls_InsecureSkipVerify = False, tls_MinVersion = 0x0303, tls_MaxVersion = 0\<rparr>)
   \<and> (secret h = Some scrt \<longrightarrow>
      prepareTLSConfig ext h =
        NewTLSConfig ext
          \<lparr>prom_CA = CA (scrt_TLSConfig scrt), prom_Cert = Cert (scrt_TLSConfig scrt),
           prom_Key = Key (scrt_TLSConfig scrt), prom_CAFile = CAFile (scrt_TLSConfig scrt),
           prom_CertFile = CertFile (scrt_TLSConfig scrt),
           prom_KeyFile = KeyFile (scrt_TLSConfig scrt),
           prom_ServerName = ServerName (scrt_TLSConfig scrt),
           prom_InsecureSkipVerify = InsecureSkipVerify (scrt_TLSConfig scrt),
           prom_MinVersion = 0x0303, prom_MaxVersion = 0x0304\<rparr>)"
  by (simp add: prepareTLSConfig_def tls_Config_zero_def VersionTLS12_def TLSVersions_def)

lemma prepareTransport_cases:
  "(prepareTLSConfig ext h = Inl err \<longrightarrow>
      prepareTransport ext h = Inl (HTTPError 502 ''unable build the tls config''))
   \<and> (prepareTLSConfig ext h = Inr tlsConfig \<longrightarrow>
      prepareTransport ext h =
        Inr \<lparr>tr_ProxyFromEnvironment = True, tr_DialTimeout = 30, tr_DialKeepAlive = 30,
             tr_TLSHandshakeTimeout = 10, tr_IdleConnTimeout = 90,
             tr_ForceAttemptHTTP2 = True, tr_TLSClientConfig = tlsConfig\<rparr>)"
  by (simp add: prepareTransport_def StatusBadGateway_def)

lemma serve_transport:
  "serve ext h c = Forwarded req tr res \<Longrightarrow> prepareTransport ext h = Inr tr"
  by (auto simp: serve_def split: if_splits sum.splits)

lemma serve_transport_tls:
  "serve ext h c = Forwarded req tr res \<Longrightarrow>
     prepareTLSConfig ext h = Inr (tr_TLSClientConfig tr)"
  using serve_transport [of ext h c req tr res]
  by (auto simp: prepareTransport_def split: sum.splits)

lemma serve_tls_failure:
  assumes "prepareTLSConfig ext h = Inl err"
    and "cfg_AllowedEndpoints (config h) = [] \<or> isAllowed h (Request c)"
    and "prepareRequest h c = Inr req"
  shows "serve ext h c = Failed (HTTPError 502 ''unable build the tls config'')"
  using assms by (auto simp: serve_def prepareTransport_def StatusBadGateway_def)

text \<open>
  The middleware never hands them a secret: whatever the stores hold, a proxy that
  \<open>newProxy\<close> returns has no secret, so every request that is forwarded goes out with
  \<open>{MinVersion: TLS1.2}\<close>, also when its datasource names a secret.
\<close>

lemma newProxy_no_secret:
  assumes "fst (newProxy ext spec pth cr retrieveSecret) = Returned (Some h) err"
    and "\<And>name. fst (fst (retrieveSecret name)) = None \<or> snd (fst (retrieveSecret name)) = None"
  shows "secret h = None"
proof (cases "ValidateAndExtract ext (Plugin_Spec spec)")
  case (Inl e)
  with assms(1) show ?thesis by (simp add: newProxy_def)
next
  case (Inr cfg')
  show ?thesis
  proof (cases cfg')
    case None
    with assms(1) Inr show ?thesis by (simp add: newProxy_def)
  next
    case (Some cfg)
    obtain scrt er calls where r: "retrieveSecret (cfg_Secret cfg) = ((scrt, er), calls)"
      by (cases "retrieveSecret (cfg_Secret cfg)") auto
    with assms(2) [of "cfg_Secret cfg"] have "scrt = None \<or> er = None" by simp
    with assms(1) Inr Some r show ?thesis
      by (auto simp: newProxy_def crypto_Decrypt_def
            split: if_splits decrypt_result.splits nil_behaviour.splits)
  qed
qed

lemma getGlobalSecret_shape:
  "fst (fst (getGlobalSecret ext e dts name)) = None
   \<or> snd (fst (getGlobalSecret ext e dts name)) = None"
  by (simp add: getGlobalSecret_def split: dao_result.splits)

lemma getProjectSecret_shape:
  "fst (fst (getProjectSecret ext e project dts name)) = None
   \<or> snd (fst (getProjectSecret ext e project dts name)) = None"
  by (simp add: getProjectSecret_def split: dao_result.splits)

lemma serve_result_secret:
  assumes "serve_result ext (fst (newProxy ext spec pth cr retrieveSecret)) ctx
             = Forwarded req tr res"
    and "\<And>name. fst (fst (retrieveSecret name)) = None \<or> snd (fst (retrieveSecret name)) = None"
  shows "tr_TLSClientConfig tr =
           \<lparr>tls_RootCAs = None, tls_Certificates = [], tls_ServerName = [],
            tls_InsecureSkipVerify = False, tls_MinVersion = 0x0303, tls_MaxVersion = 0\<rparr>"
proof -
  from assms(1) obtain h
    where h: "fst (newProxy ext spec pth cr retrieveSecret) = Returned (Some h) None"
      and s: "serve ext h ctx = Forwarded req tr res"
    by (auto simp: serve_result_def split: newProxy_result.splits option.splits)
  from newProxy_no_secret [OF h assms(2)] have "secret h = None" .
  with serve_transport_tls [OF s] prepareTLSConfig_cases [of h ext] show ?thesis by simp
qed

lemma global_forwarded_tls:
  assumes "fst (proxyGlobalDatasource ext e c) = Forwarded req tr res"
  shows "tr_TLSClientConfig tr =
           \<lparr>tls_RootCAs = None, tls_Certificates = [], tls_ServerName = [],
            tls_InsecureSkipVerify = False, tls_MinVersion = 0x0303, tls_MaxVersion = 0\<rparr>"
proof -
  from assms obtain spec pth dts
    where "serve_result ext
             (fst (newProxy ext spec pth (Crypto e) (getGlobalSecret ext e dts))) c
           = Forwarded req tr res"
    by (auto simp: proxyGlobalDatasource_def split: sum.splits prod.splits)
       (metis fst_conv)
  then show ?thesis
    by (rule serve_result_secret) (rule getGlobalSecret_shape)
qed

lemma project_forwarded_tls:
  assumes "fst (proxyProjectDatasource ext e c) = Forwarded req tr res"
  shows "tr_TLSClientConfig tr =
           \<lparr>tls_RootCAs = None, tls_Certificates = [], tls_ServerName = [],
            tls_InsecureSkipVerify = False, tls_MinVersion = 0x0303, tls_MaxVersion = 0\<rparr>"
proof -
  from assms obtain spec pth project dts
    where "serve_result ext
             (fst (newProxy ext spec pth (Crypto e) (getProjectSecret ext e project dts))) c
           = Forwarded req tr res"
    by (auto simp: proxyProjectDatasource_def split: sum.splits prod.splits)
       (metis fst_conv)
  then show ?thesis
    by (rule serve_result_secret) (rule getProjectSecret_shape)
qed

lemma dashboard_forwarded_tls:
  assumes "fst (proxyDashboardDatasource ext e c) = Forwarded req tr res"
  shows "tr_TLSClientConfig tr =
           \<lparr>tls_RootCAs = None, tls_Certificates = [], tls_ServerName = [],
            tls_InsecureSkipVerify = False, tls_MinVersion = 0x0303, tls_MaxVersion = 0\<rparr>"
proof -
  from assms obtain spec pth project dts
    where "serve_result ext
             (fst (newProxy ext spec pth (Crypto e) (getProjectSecret ext e project dts))) c
           = Forwarded req tr res"
    by (auto simp: proxyDashboardDatasource_def split: sum.splits prod.splits option.splits)
       (metis fst_conv)
  then show ?thesis
    by (rule serve_result_secret) (rule getProjectSecret_shape)
qed

lemma forwarded_default_tls:
  assumes "fst (Proxy_Proxy ext e c) = Forwarded req tr res"
  shows "tr_TLSClientConfig tr =
           \<lparr>tls_RootCAs = None, tls_Certificates = [], tls_ServerName = [],
            tls_InsecureSkipVerify = False, tls_MinVersion = 0x0303, tls_MaxVersion = 0\<rparr>"
  using assms global_forwarded_tls [of ext e c req tr res]
    project_forwarded_tls [of ext e c req tr res]
    dashboard_forwarded_tls [of ext e c req tr res]
  by (auto simp: Proxy_Proxy_def Let_def split: if_splits)

lemma prepare_without_auth:
  "scrt_BasicAuth scrt = None \<Longrightarrow> scrt_Authorization scrt = None \<Longrightarrow>
     prepareRequest (test_httpProxy [] (Some scrt) ''/api/v1/query'') (get_request query_path)
       = Inr (prepared_request query_path)"
  by (simp add: prepareRequest_def setupAuthentication_def Header_Get_def Header_Set_def
        canonical_keys test_httpProxy_def http_config_def upstream_def get_request_def
        prepared_request_def)

lemma serve_bad_ca:
  "serve test_externals (test_httpProxy [] (Some secret_bad_ca) ''/api/v1/query'')
       (get_request query_path)
     = Failed (HTTPError 502 ''unable build the tls config'')"
proof -
  have "prepareTLSConfig test_externals
          (test_httpProxy [] (Some secret_bad_ca) ''/api/v1/query'')
        = Inl ''unable to read the CA file''"
    by (simp add: prepareTLSConfig_def test_httpProxy_def secret_bad_ca_def no_tls_def
          test_externals_def build_tls_def)
  moreover have "prepareRequest (test_httpProxy [] (Some secret_bad_ca) ''/api/v1/query'')
          (get_request query_path)
        = Inr (prepared_request query_path)"
    by (rule prepare_without_auth) (simp_all add: secret_bad_ca_def)
  moreover have
    "cfg_AllowedEndpoints (config (test_httpProxy [] (Some secret_bad_ca) ''/api/v1/query''))
       = []"
    by (simp add: test_httpProxy_def http_config_def)
  ultimately show ?thesis
    using serve_tls_failure by blast
qed

lemma prepareTLSConfig_secret_tls:
  "prepareTLSConfig test_externals (test_httpProxy [] (Some secret_tls) ''/api/v1/query'')
     = Inr \<lparr>tls_RootCAs = Some ''ca-pem'', tls_Certificates = [],
            tls_ServerName = ''prometheus.internal'', tls_InsecureSkipVerify = False,
            tls_MinVersion = 0x0303, tls_MaxVersion = 0x0304\<rparr>"
  by (simp add: prepareTLSConfig_def test_httpProxy_def secret_tls_def no_tls_def
        test_externals_def build_tls_def TLSVersions_def)

text \<open>
  Claim C10, on the code. The request \<open>GET /proxy/projects/p1/datasources/prom1/api/v1/query\<close>
  with the datasource \<open>p1/prom1\<close> naming the secret \<open>s1\<close>. When \<open>s1\<close> names a CA file
  that cannot be read, the call does not return 502: the datasource and the secret are
  read and the call panics. When \<open>s1\<close> holds a CA and a server name, no TLS
  configuration is derived from them: the call panics as well. Handed a proxy with these
  secrets, \<open>serve\<close> returns the 502 and \<open>prepareTLSConfig\<close> returns the configuration
  with the CA, the server name and the bounds TLS 1.2 and TLS 1.3.
\<close>

theorem secret_tls_is_never_used:
  "Proxy_Proxy test_externals (test_proxy NilPanics (Found secret_bad_ca) KeyNotFound)
       (get_request query_path)
     = (Panicked, [DTS_Get ''p1'' ''prom1'', Secret_Get ''p1'' ''s1''])
   \<and> Proxy_Proxy test_externals (test_proxy NilPanics (Found secret_tls) KeyNotFound)
         (get_request query_path)
       = (Panicked, [DTS_Get ''p1'' ''prom1'', Secret_Get ''p1'' ''s1''])
   \<and> serve test_externals (test_httpProxy [] (Some secret_bad_ca) ''/api/v1/query'')
         (get_request query_path)
       = Failed (HTTPError 502 ''unable build the tls config'')
   \<and> prepareTLSConfig test_externals (test_httpProxy [] (Some secret_tls) ''/api/v1/query'')
       = Inr \<lparr>tls_RootCAs = Some ''ca-pem'', tls_Certificates = [],
              tls_ServerName = ''prometheus.internal'', tls_InsecureSkipVerify = False,
              tls_MinVersion = 0x0303, tls_MaxVersion = 0x0304\<rparr>"
  using serve_bad_ca prepareTLSConfig_secret_tls
  by (simp add: pipeline_defs test_externals_def test_proxy_def get_request_def
        extract_config_def plugin_with_secret_def http_config_def path_facts)

end
